theory Spec2Isabelle
  imports Complex_Main "HOL-Library.Word"
begin

section \<open>Python values\<close>

text \<open>
  A Python \<open>float\<close> is modelled by its value: a real number, one of the two infinities,
  or not-a-number. The operations of this section are exact on finite values; the section
  on rounded arithmetic adds the rounding of a result (with overflow to an infinity and
  underflow to zero) where a property depends on it. The two zeros are one value (Python
  raises on every division by a zero, so their sign is never observed here). A Python
  \<open>int\<close> used as a number is the finite value it denotes.
\<close>

datatype pyfloat = Fin real | PInf | NInf | NaN

text \<open>The exceptions the modelled code raises or catches.\<close>

datatype py_exception =
    ValueError
  | ConnectionError
  | ZeroDivisionError
  | KeyError
  | HTTPStatusError
  | OtherException

text \<open>Comparisons: every comparison with not-a-number is false.\<close>

definition py_eq :: "pyfloat \<Rightarrow> pyfloat \<Rightarrow> bool" where
  "py_eq a b = (a \<noteq> NaN \<and> a = b)"

definition py_lt :: "pyfloat \<Rightarrow> pyfloat \<Rightarrow> bool" where
  "py_lt a b =
     (case (a, b) of
        (Fin x, Fin y) \<Rightarrow> x < y
      | (Fin x, PInf) \<Rightarrow> True
      | (NInf, Fin y) \<Rightarrow> True
      | (NInf, PInf) \<Rightarrow> True
      | _ \<Rightarrow> False)"

definition py_gt :: "pyfloat \<Rightarrow> pyfloat \<Rightarrow> bool" where
  "py_gt a b = py_lt b a"

definition py_le :: "pyfloat \<Rightarrow> pyfloat \<Rightarrow> bool" where
  "py_le a b = (py_lt a b \<or> py_eq a b)"

text \<open>\<open>inf_times s\<close> is positive infinity multiplied by a finite number \<open>s\<close>.\<close>

definition inf_times :: "real \<Rightarrow> pyfloat" where
  "inf_times s = (if s = 0 then NaN else if 0 < s then PInf else NInf)"

fun py_mul :: "pyfloat \<Rightarrow> pyfloat \<Rightarrow> pyfloat" where
  "py_mul (Fin x) (Fin y) = Fin (x * y)"
| "py_mul NaN _ = NaN"
| "py_mul _ NaN = NaN"
| "py_mul PInf (Fin y) = inf_times y"
| "py_mul (Fin x) PInf = inf_times x"
| "py_mul NInf (Fin y) = inf_times (- y)"
| "py_mul (Fin x) NInf = inf_times (- x)"
| "py_mul PInf PInf = PInf"
| "py_mul NInf NInf = PInf"
| "py_mul PInf NInf = NInf"
| "py_mul NInf PInf = NInf"

text \<open>
  True division \<open>a / b\<close>: Python raises \<open>ZeroDivisionError\<close> whenever the divisor
  compares equal to zero, whatever the dividend.
\<close>

fun float_div :: "pyfloat \<Rightarrow> pyfloat \<Rightarrow> pyfloat" where
  "float_div (Fin x) (Fin y) = Fin (x / y)"
| "float_div NaN _ = NaN"
| "float_div _ NaN = NaN"
| "float_div (Fin x) PInf = Fin 0"
| "float_div (Fin x) NInf = Fin 0"
| "float_div PInf (Fin y) = inf_times y"
| "float_div NInf (Fin y) = inf_times (- y)"
| "float_div PInf PInf = NaN"
| "float_div PInf NInf = NaN"
| "float_div NInf PInf = NaN"
| "float_div NInf NInf = NaN"

definition py_truediv :: "pyfloat \<Rightarrow> pyfloat \<Rightarrow> py_exception + pyfloat" where
  "py_truediv a b = (if py_eq b (Fin 0) then Inl ZeroDivisionError else Inr (float_div a b))"

section \<open>Rounded arithmetic\<close>

text \<open>
  A float operation returns the exact result rounded to the format. Where a property
  depends on that (a product that underflows to zero is a zero divisor; two bonuses one
  unit in the last place apart may give the same price), the rounding is a parameter
  \<open>fl\<close> of the operation: it maps the exact real result to the float returned, which
  may be an infinity (overflow) or zero (underflow). An exact result that is already an
  infinity or not-a-number is returned as it is.
\<close>

definition rounded :: "(real \<Rightarrow> pyfloat) \<Rightarrow> pyfloat \<Rightarrow> pyfloat" where
  "rounded fl v = (case v of Fin x \<Rightarrow> fl x | PInf \<Rightarrow> PInf | NInf \<Rightarrow> NInf | NaN \<Rightarrow> NaN)"

definition float_mul :: "(real \<Rightarrow> pyfloat) \<Rightarrow> pyfloat \<Rightarrow> pyfloat \<Rightarrow> pyfloat" where
  "float_mul fl a b = rounded fl (py_mul a b)"

definition float_truediv ::
  "(real \<Rightarrow> pyfloat) \<Rightarrow> pyfloat \<Rightarrow> pyfloat \<Rightarrow> py_exception + pyfloat" where
  "float_truediv fl a b =
     (if py_eq b (Fin 0) then Inl ZeroDivisionError else Inr (rounded fl (float_div a b)))"

text \<open>
  What is used of a rounding: it is monotone (so it never returns not-a-number) and it
  returns zero for zero. Rounding to the nearest float, as Python's floats do, is such a
  function.
\<close>

definition rounding :: "(real \<Rightarrow> pyfloat) \<Rightarrow> bool" where
  "rounding fl = ((\<forall>x y. x \<le> y \<longrightarrow> py_le (fl x) (fl y)) \<and> fl 0 = Fin 0)"

text \<open>
  Two roundings for the examples: \<open>Fin\<close> itself is arithmetic without rounding, and
  \<open>range_rounding tiny huge\<close> keeps a result whose magnitude is at least \<open>tiny\<close> and
  below \<open>huge\<close>, returns zero below \<open>tiny\<close> and an infinity from \<open>huge\<close> on;
  \<open>binary64_range\<close> has the bounds of a double.
\<close>

definition range_rounding :: "real \<Rightarrow> real \<Rightarrow> real \<Rightarrow> pyfloat" where
  "range_rounding tiny huge x =
     (if huge \<le> x then PInf
      else if x \<le> - huge then NInf
      else if \<bar>x\<bar> < tiny then Fin 0
      else Fin x)"

definition binary64_range :: "real \<Rightarrow> pyfloat" where
  "binary64_range = range_rounding (1 / 2 ^ 1075) (2 ^ 1024)"

section \<open>Risk formulas of the lending monitor\<close>

text \<open>
  \<^verbatim>\<open>LendingMonitor.calculate_health_factor\<close>: infinity when the debt compares equal to
  zero, else \<open>(total_collateral_usd * liquidation_threshold) / total_debt_usd\<close>.
\<close>

definition calculate_health_factor ::
  "pyfloat \<Rightarrow> pyfloat \<Rightarrow> pyfloat \<Rightarrow> py_exception + pyfloat" where
  "calculate_health_factor total_collateral_usd total_debt_usd liquidation_threshold =
     (if py_eq total_debt_usd (Fin 0) then Inr PInf
      else py_truediv (py_mul total_collateral_usd liquidation_threshold) total_debt_usd)"

text \<open>
  \<^verbatim>\<open>LendingMonitor.calculate_liquidation_price\<close>, with the rounding \<open>fl\<close> of its
  three divisions and two products explicit. The last parameter is optional in the source
  (\<open>liquidation_bonus: float = 1.05\<close>): \<open>None\<close> stands for a call that omits it, and
  the literal is the float nearest to 1.05.
\<close>

definition default_liquidation_bonus :: "(real \<Rightarrow> pyfloat) \<Rightarrow> pyfloat" where
  "default_liquidation_bonus fl = fl (105 / 100)"

definition calculate_liquidation_price ::
  "(real \<Rightarrow> pyfloat) \<Rightarrow> pyfloat \<Rightarrow> pyfloat \<Rightarrow> pyfloat \<Rightarrow> pyfloat \<Rightarrow> pyfloat option \<Rightarrow>
     py_exception + pyfloat" where
  "calculate_liquidation_price fl collateral_amount debt_amount debt_price liquidation_threshold
       bonus =
     (let liquidation_bonus =
            (case bonus of None \<Rightarrow> default_liquidation_bonus fl | Some b \<Rightarrow> b) in
      if py_eq collateral_amount (Fin 0) then Inr (Fin 0)
      else
        (case float_truediv fl liquidation_threshold liquidation_bonus of
           Inl e \<Rightarrow> Inl e
         | Inr effective_threshold \<Rightarrow>
             float_truediv fl (float_mul fl debt_amount debt_price)
               (float_mul fl collateral_amount effective_threshold)))"

text \<open>
  \<^verbatim>\<open>LendingMonitor.should_alert\<close>. The critical bound 1.05 is a literal of the source;
  the alert threshold is its optional parameter (\<open>threshold: float = 1.2\<close>).
\<close>

definition default_alert_threshold :: pyfloat where
  "default_alert_threshold = Fin (12 / 10)"

definition should_alert :: "pyfloat \<Rightarrow> pyfloat option \<Rightarrow> bool \<times> string" where
  "should_alert health_factor thr =
     (let threshold = (case thr of None \<Rightarrow> default_alert_threshold | Some t \<Rightarrow> t) in
      if py_lt health_factor (Fin (105 / 100)) then (True, ''critical'')
      else if py_lt health_factor threshold then (True, ''warning'')
      else (False, ''safe''))"

section \<open>Protocol interfaces\<close>

datatype ProtocolType = AAVE_V3 | COMPOUND_V3 | SPARK | RADIANT

definition CHAIN_NAMES :: "int \<rightharpoonup> string" where
  "CHAIN_NAMES = map_of
     [(1, ''Ethereum''), (137, ''Polygon''), (42161, ''Arbitrum''), (10, ''Optimism''),
      (8453, ''Base''), (43114, ''Avalanche''), (56, ''BSC'')]"

definition AAVE_V3_POOL_ADDRESSES :: "int \<rightharpoonup> string" where
  "AAVE_V3_POOL_ADDRESSES = map_of
     [(1, ''0x87870Bca3F3fD6335C3F4ce8392D69350B4fA4E2''),
      (137, ''0x794a61358D6845594F94dc1DB02A252b5b4814aD''),
      (42161, ''0x794a61358D6845594F94dc1DB02A252b5b4814aD''),
      (10, ''0x794a61358D6845594F94dc1DB02A252b5b4814aD''),
      (8453, ''0xA238Dd80C259a72e81d7e4664a9801593F98d1c5''),
      (43114, ''0x794a61358D6845594F94dc1DB02A252b5b4814aD'')]"

definition COMPOUND_V3_COMET_ADDRESSES :: "int \<rightharpoonup> string" where
  "COMPOUND_V3_COMET_ADDRESSES = map_of
     [(1, ''0xc3d688B66703497DAA19211EEdff47f25384cdc3''),
      (137, ''0xF25212E676D1F7F89Cd72fFEe66158f541246445''),
      (42161, ''0xA5EDBDD9646f8dFF606d7448e414884C7d905dCA''),
      (8453, ''0xb125E6687d4313864e53df431d5425969c15Eb2F'')]"

definition SPARK_POOL_ADDRESSES :: "int \<rightharpoonup> string" where
  "SPARK_POOL_ADDRESSES = map_of
     [(1, ''0xC13e21B648A5Ee794902342038FF3aDAB66BE987'')]"

definition RADIANT_POOL_ADDRESSES :: "int \<rightharpoonup> string" where
  "RADIANT_POOL_ADDRESSES = map_of
     [(42161, ''0xF4B1486DD74D07706052A33d31d7c0AAFD0659E1''),
      (43114, ''0xF4B1486DD74D07706052A33d31d7c0AAFD0659E1''),
      (56, ''0xd50Cf00b6e600Dd036Ba8eF475677d816d6c4281'')]"

text \<open>
  The ABI declares every value read from the chain as \<open>uint256\<close>. The six outputs of
  \<open>getUserAccountData\<close> are, in order: totalCollateralBase, totalDebtBase,
  availableBorrowsBase, currentLiquidationThreshold, ltv, healthFactor.
\<close>

type_synonym uint256 = "256 word"

type_synonym raw_account = "uint256 \<times> uint256 \<times> uint256 \<times> uint256 \<times> uint256 \<times> uint256"

definition of_uint :: "uint256 \<Rightarrow> pyfloat" where
  "of_uint x = Fin (real (unat x))"

text \<open>The response of the price aggregator: a JSON object from ids to objects from
  currency names to prices, in the order in which Python iterates over it.\<close>

type_synonym json_prices = "(string \<times> (string \<rightharpoonup> pyfloat)) list"

text \<open>
  What the code reads from outside itself: the process environment, the connectivity
  check of a provider (by its RPC URL), the address checksum of the web3 library, the
  contract reads (by RPC URL, contract address and arguments) and the HTTP query.
\<close>

record world =
  getenv :: "string \<Rightarrow> string option"
  is_connected :: "string \<Rightarrow> bool"
  to_checksum_address :: "string \<Rightarrow> py_exception + string"
  getUserAccountData :: "string \<Rightarrow> string \<Rightarrow> string \<Rightarrow> py_exception + raw_account"
  borrowBalanceOf :: "string \<Rightarrow> string \<Rightarrow> string \<Rightarrow> py_exception + uint256"
  collateralBalanceOf :: "string \<Rightarrow> string \<Rightarrow> string \<Rightarrow> py_exception + uint256"
  getPrice :: "string \<Rightarrow> string \<Rightarrow> py_exception + uint256"
  http_get :: "string \<Rightarrow> py_exception + json_prices"

text \<open>The network calls a constructor makes, in order.\<close>

datatype net_event = IsConnected string

datatype interface_class =
  AaveV3Interface | CompoundV3Interface | SparkInterface | RadiantInterface

text \<open>
  An interface object: its class, \<open>self.chain_id\<close>, the provider \<open>self.w3\<close> (given by
  its RPC URL) and the address its contract object (\<open>pool_contract\<close> or
  \<open>comet_contract\<close>) is bound to. \<open>Web3.to_checksum_address\<close> of a table's
  address is a local computation on a well-formed address; the model keeps the address as
  the table has it.
\<close>

record protocol_interface =
  cls :: interface_class
  self_chain_id :: int
  self_w3 :: string
  self_contract :: string

text \<open>Sequencing of steps that may raise, and \<open>except Exception: return None\<close>.\<close>

definition then_do :: "py_exception + 'a \<Rightarrow> ('a \<Rightarrow> py_exception + 'b) \<Rightarrow> py_exception + 'b" where
  "then_do m f = (case m of Inl e \<Rightarrow> Inl e | Inr x \<Rightarrow> f x)"

definition except_none :: "py_exception + 'a \<Rightarrow> 'a option" where
  "except_none m = (case m of Inl e \<Rightarrow> None | Inr x \<Rightarrow> Some x)"

text \<open>\<^verbatim>\<open>ProtocolInterface.__init__\<close>: build the provider, then check that it is connected.\<close>

definition ProtocolInterface_init ::
  "world \<Rightarrow> int \<Rightarrow> string \<Rightarrow> net_event list \<times> (py_exception + int \<times> string)" where
  "ProtocolInterface_init w chain_id rpc_url =
     ([IsConnected rpc_url],
      if is_connected w rpc_url then Inr (chain_id, rpc_url) else Inl ConnectionError)"

text \<open>\<^verbatim>\<open>AaveV3Interface.__init__\<close>: the base initialiser first, then the address table.\<close>

definition AaveV3Interface_init ::
  "world \<Rightarrow> int \<Rightarrow> string \<Rightarrow> net_event list \<times> (py_exception + protocol_interface)" where
  "AaveV3Interface_init w chain_id rpc_url =
     (case ProtocolInterface_init w chain_id rpc_url of
        (net, Inl e) \<Rightarrow> (net, Inl e)
      | (net, Inr (cid, w3)) \<Rightarrow>
          (case AAVE_V3_POOL_ADDRESSES chain_id of
             None \<Rightarrow> (net, Inl ValueError)
           | Some pool_address \<Rightarrow>
               (net, Inr \<lparr>cls = AaveV3Interface, self_chain_id = cid, self_w3 = w3,
                          self_contract = pool_address\<rparr>)))"

text \<open>\<^verbatim>\<open>CompoundV3Interface.__init__\<close>: the same order.\<close>

definition CompoundV3Interface_init ::
  "world \<Rightarrow> int \<Rightarrow> string \<Rightarrow> net_event list \<times> (py_exception + protocol_interface)" where
  "CompoundV3Interface_init w chain_id rpc_url =
     (case ProtocolInterface_init w chain_id rpc_url of
        (net, Inl e) \<Rightarrow> (net, Inl e)
      | (net, Inr (cid, w3)) \<Rightarrow>
          (case COMPOUND_V3_COMET_ADDRESSES chain_id of
             None \<Rightarrow> (net, Inl ValueError)
           | Some comet_address \<Rightarrow>
               (net, Inr \<lparr>cls = CompoundV3Interface, self_chain_id = cid, self_w3 = w3,
                          self_contract = comet_address\<rparr>)))"

text \<open>
  \<^verbatim>\<open>SparkInterface.__init__\<close> and \<^verbatim>\<open>RadiantInterface.__init__\<close>: the address table
  first, then \<^verbatim>\<open>ProtocolInterface.__init__\<close> called directly.
\<close>

definition SparkInterface_init ::
  "world \<Rightarrow> int \<Rightarrow> string \<Rightarrow> net_event list \<times> (py_exception + protocol_interface)" where
  "SparkInterface_init w chain_id rpc_url =
     (case SPARK_POOL_ADDRESSES chain_id of
        None \<Rightarrow> ([], Inl ValueError)
      | Some pool_address \<Rightarrow>
          (case ProtocolInterface_init w chain_id rpc_url of
             (net, Inl e) \<Rightarrow> (net, Inl e)
           | (net, Inr (cid, w3)) \<Rightarrow>
               (net, Inr \<lparr>cls = SparkInterface, self_chain_id = cid, self_w3 = w3,
                          self_contract = pool_address\<rparr>)))"

definition RadiantInterface_init ::
  "world \<Rightarrow> int \<Rightarrow> string \<Rightarrow> net_event list \<times> (py_exception + protocol_interface)" where
  "RadiantInterface_init w chain_id rpc_url =
     (case RADIANT_POOL_ADDRESSES chain_id of
        None \<Rightarrow> ([], Inl ValueError)
      | Some pool_address \<Rightarrow>
          (case ProtocolInterface_init w chain_id rpc_url of
             (net, Inl e) \<Rightarrow> (net, Inl e)
           | (net, Inr (cid, w3)) \<Rightarrow>
               (net, Inr \<lparr>cls = RadiantInterface, self_chain_id = cid, self_w3 = w3,
                          self_contract = pool_address\<rparr>)))"

text \<open>\<^verbatim>\<open>get_protocol_interface\<close>: the factory. Its last branch (an unknown protocol)
  cannot be reached with a member of the enumeration.\<close>

definition get_protocol_interface ::
  "world \<Rightarrow> ProtocolType \<Rightarrow> int \<Rightarrow> string \<Rightarrow> net_event list \<times> (py_exception + protocol_interface)" where
  "get_protocol_interface w protocol chain_id rpc_url =
     (case protocol of
        AAVE_V3 \<Rightarrow> AaveV3Interface_init w chain_id rpc_url
      | COMPOUND_V3 \<Rightarrow> CompoundV3Interface_init w chain_id rpc_url
      | SPARK \<Rightarrow> SparkInterface_init w chain_id rpc_url
      | RADIANT \<Rightarrow> RadiantInterface_init w chain_id rpc_url)"

section \<open>Account data\<close>

type_synonym position = string

text \<open>The dictionary \<^verbatim>\<open>LendingMonitor.monitor_position\<close> returns.\<close>

record position_data =
  chain_name :: string
  health_factor :: pyfloat
  liq_price :: "pyfloat option"
  total_collateral_usd :: pyfloat
  total_debt_usd :: pyfloat
  liquidation_threshold :: pyfloat
  ltv :: pyfloat
  positions :: "position list"

text \<open>The dictionary an interface's \<^verbatim>\<open>get_user_account_data\<close> returns.\<close>

record account_data =
  total_collateral_usd :: pyfloat
  total_debt_usd :: pyfloat
  available_borrows_usd :: pyfloat
  liquidation_threshold :: pyfloat
  ltv :: pyfloat
  health_factor :: pyfloat
  positions :: "position list"

text \<open>
  \<^verbatim>\<open>AaveV3Interface.get_user_account_data\<close>, inherited unchanged by the Spark and
  Radiant interfaces: one contract read, six divisions, and every exception turned into
  \<open>None\<close>.
\<close>

definition AaveV3Interface_get_user_account_data ::
  "world \<Rightarrow> protocol_interface \<Rightarrow> string \<Rightarrow> account_data option" where
  "AaveV3Interface_get_user_account_data w self wallet =
     except_none
       (then_do (to_checksum_address w wallet) (\<lambda>wallet_checksum.
        then_do (getUserAccountData w (self_w3 self) (self_contract self) wallet_checksum)
          (\<lambda>(total_collateral_base, total_debt_base, available_borrows_base,
              current_liquidation_threshold, ltv_raw, health_factor_raw).
        then_do (py_truediv (of_uint total_collateral_base) (Fin (10 ^ 8))) (\<lambda>v1.
        then_do (py_truediv (of_uint total_debt_base) (Fin (10 ^ 8))) (\<lambda>v2.
        then_do (py_truediv (of_uint available_borrows_base) (Fin (10 ^ 8))) (\<lambda>v3.
        then_do (py_truediv (of_uint current_liquidation_threshold) (Fin (10 ^ 4))) (\<lambda>v4.
        then_do (py_truediv (of_uint ltv_raw) (Fin (10 ^ 4))) (\<lambda>v5.
        then_do (py_truediv (of_uint health_factor_raw) (Fin (10 ^ 18))) (\<lambda>v6.
        Inr \<lparr>total_collateral_usd = v1, total_debt_usd = v2, available_borrows_usd = v3,
             liquidation_threshold = v4, ltv = v5, health_factor = v6,
             positions = []\<rparr>)))))))))"

text \<open>
  \<^verbatim>\<open>CompoundV3Interface.get_user_account_data\<close>: three reads; the product of the
  collateral balance and the price is a product of Python integers, which does not wrap.
\<close>

definition CompoundV3Interface_get_user_account_data ::
  "world \<Rightarrow> protocol_interface \<Rightarrow> string \<Rightarrow> account_data option" where
  "CompoundV3Interface_get_user_account_data w self wallet =
     except_none
       (then_do (to_checksum_address w wallet) (\<lambda>wallet_checksum.
        then_do (borrowBalanceOf w (self_w3 self) (self_contract self) wallet_checksum)
          (\<lambda>borrow_balance.
        then_do (collateralBalanceOf w (self_w3 self) (self_contract self) wallet_checksum)
          (\<lambda>collateral_balance.
        then_do (getPrice w (self_w3 self) (self_contract self)) (\<lambda>price.
        then_do (py_truediv (of_uint borrow_balance) (Fin (10 ^ 6))) (\<lambda>total_debt_usd'.
        then_do (py_truediv (Fin (real (unat collateral_balance * unat price))) (Fin (10 ^ 14)))
          (\<lambda>total_collateral_usd'.
        then_do
          (if py_gt total_debt_usd' (Fin 0)
           then py_truediv (py_mul total_collateral_usd' (Fin (8 / 10))) total_debt_usd'
           else Inr PInf) (\<lambda>health_factor'.
        Inr \<lparr>total_collateral_usd = total_collateral_usd', total_debt_usd = total_debt_usd',
             available_borrows_usd = Fin 0, liquidation_threshold = Fin (8 / 10),
             ltv = Fin (75 / 100), health_factor = health_factor',
             positions = []\<rparr>))))))))"

text \<open>The method an interface object answers \<^verbatim>\<open>get_user_account_data\<close> with.\<close>

definition get_user_account_data ::
  "world \<Rightarrow> protocol_interface \<Rightarrow> string \<Rightarrow> account_data option" where
  "get_user_account_data w self wallet =
     (case cls self of
        CompoundV3Interface \<Rightarrow> CompoundV3Interface_get_user_account_data w self wallet
      | AaveV3Interface \<Rightarrow> AaveV3Interface_get_user_account_data w self wallet
      | SparkInterface \<Rightarrow> AaveV3Interface_get_user_account_data w self wallet
      | RadiantInterface \<Rightarrow> AaveV3Interface_get_user_account_data w self wallet)"

section \<open>The lending monitor\<close>

text \<open>Decimal notation of an integer, for the f-strings of the source.\<close>

function str_nat :: "nat \<Rightarrow> string" where
  "str_nat n =
     (if n < 10 then [char_of (48 + n)]
      else str_nat (n div 10) @ [char_of (48 + n mod 10)])"
  by pat_completeness auto
termination
  by (relation "measure id") auto

definition str_int :: "int \<Rightarrow> string" where
  "str_int i = (if i < 0 then CHR ''-'' # str_nat (nat (- i)) else str_nat (nat i))"

definition DEFAULT_RPC_URLS :: "int \<rightharpoonup> string" where
  "DEFAULT_RPC_URLS = map_of
     [(1, ''https://eth.llamarpc.com''),
      (137, ''https://polygon.llamarpc.com''),
      (42161, ''https://arbitrum.llamarpc.com''),
      (10, ''https://optimism.llamarpc.com''),
      (8453, ''https://base.llamarpc.com''),
      (43114, ''https://avalanche.llamarpc.com''),
      (56, ''https://binance.llamarpc.com'')]"

record lending_monitor =
  rpc_urls :: "int \<rightharpoonup> string"

text \<open>\<^verbatim>\<open>LendingMonitor.__init__\<close>: each default URL, unless the environment overrides it.\<close>

definition LendingMonitor_init :: "world \<Rightarrow> lending_monitor" where
  "LendingMonitor_init w =
     \<lparr>rpc_urls = (\<lambda>chain_id.
        case DEFAULT_RPC_URLS chain_id of
          None \<Rightarrow> None
        | Some url \<Rightarrow>
            Some (case getenv w (''CHAIN_'' @ str_int chain_id @ ''_RPC_URL'') of
                    None \<Rightarrow> url
                  | Some v \<Rightarrow> v))\<rparr>"

text \<open>
  \<^verbatim>\<open>LendingMonitor.monitor_position\<close>. The whole body is inside
  \<open>try ... except Exception: return None\<close>, so an exception of the factory or of the
  division ends in \<open>None\<close>. The parameter \<open>position_filters\<close> is never read.
\<close>

definition monitor_position ::
  "world \<Rightarrow> lending_monitor \<Rightarrow> string \<Rightarrow> ProtocolType \<Rightarrow> int \<Rightarrow> position_data option" where
  "monitor_position w self wallet protocol chain_id =
     (case rpc_urls self chain_id of
        None \<Rightarrow> None
      | Some rpc_url \<Rightarrow>
          (case
             then_do (snd (get_protocol_interface w protocol chain_id rpc_url))
               (\<lambda>protocol_interface.
                case get_user_account_data w protocol_interface wallet of
                  None \<Rightarrow> Inr None
                | Some ad \<Rightarrow>
                    then_do
                      (if py_gt (total_debt_usd ad) (Fin 0)
                          \<and> py_gt (total_collateral_usd ad) (Fin 0)
                       then then_do
                              (py_truediv (total_debt_usd ad)
                                 (py_mul (total_collateral_usd ad) (liquidation_threshold ad)))
                              (\<lambda>p. Inr (Some p))
                       else Inr None)
                      (\<lambda>lp.
                         Inr (Some
                           \<lparr>chain_name =
                              (case CHAIN_NAMES chain_id of
                                 Some n \<Rightarrow> n
                               | None \<Rightarrow> ''Chain '' @ str_int chain_id),
                            position_data.health_factor = health_factor ad,
                            liq_price = lp,
                            position_data.total_collateral_usd = total_collateral_usd ad,
                            position_data.total_debt_usd = total_debt_usd ad,
                            position_data.liquidation_threshold = liquidation_threshold ad,
                            position_data.ltv = ltv ad,
                            position_data.positions = positions ad\<rparr>)))
           of
             Inl e \<Rightarrow> None
           | Inr r \<Rightarrow> r))"

section \<open>Price feed\<close>

definition COINGECKO_IDS :: "string \<rightharpoonup> string" where
  "COINGECKO_IDS = map_of
     [(''ETH'', ''ethereum''),
      (''WETH'', ''ethereum''),
      (''MATIC'', ''matic-network''),
      (''WMATIC'', ''matic-network''),
      (''USDC'', ''usd-coin''),
      (''USDT'', ''tether''),
      (''DAI'', ''dai''),
      (''WBTC'', ''wrapped-bitcoin''),
      (''LINK'', ''chainlink''),
      (''AAVE'', ''aave''),
      (''CRV'', ''curve-dao-token''),
      (''UNI'', ''uniswap''),
      (''SUSHI'', ''sushi''),
      (''AVAX'', ''avalanche-2''),
      (''WAVAX'', ''avalanche-2''),
      (''BNB'', ''binancecoin''),
      (''WBNB'', ''binancecoin'')]"

text \<open>
  \<open>str.upper\<close> on the bytes of a string: the letters a to z become A to Z and every
  other byte is kept. (Python also maps letters outside ASCII; a symbol with such a
  letter is outside this model.)
\<close>

definition upper_char :: "char \<Rightarrow> char" where
  "upper_char c =
     (if 97 \<le> (of_char c :: nat) \<and> (of_char c :: nat) \<le> 122
      then char_of ((of_char c :: nat) - 32) else c)"

definition upper :: "string \<Rightarrow> string" where
  "upper s = map upper_char s"

text \<open>
  The first loop of \<^verbatim>\<open>get_token_prices\<close>: the ids to ask for, in order, and the
  dictionary \<open>symbol_to_id\<close>, which (its name notwithstanding) is keyed by the id and
  holds the upper-cased symbol.
\<close>

fun map_symbols ::
  "string list \<Rightarrow> string list \<Rightarrow> (string \<rightharpoonup> string) \<Rightarrow> string list \<times> (string \<rightharpoonup> string)" where
  "map_symbols [] coingecko_ids symbol_to_id = (coingecko_ids, symbol_to_id)"
| "map_symbols (symbol # rest) coingecko_ids symbol_to_id =
     (case COINGECKO_IDS (upper symbol) of
        None \<Rightarrow> map_symbols rest coingecko_ids symbol_to_id
      | Some cg_id \<Rightarrow>
          if cg_id \<noteq> []
          then map_symbols rest (coingecko_ids @ [cg_id]) (symbol_to_id(cg_id \<mapsto> upper symbol))
          else map_symbols rest coingecko_ids symbol_to_id)"

fun join :: "string \<Rightarrow> string list \<Rightarrow> string" where
  "join sep [] = []"
| "join sep [x] = x"
| "join sep (x # y # ys) = x @ sep @ join sep (y # ys)"

text \<open>
  The loop over the response. An id of the response that \<open>symbol_to_id\<close> does not hold
  raises \<open>KeyError\<close>, which leaves the loop with the prices stored so far.
\<close>

fun parse_response ::
  "(string \<rightharpoonup> string) \<Rightarrow> json_prices \<Rightarrow> (string \<rightharpoonup> pyfloat) \<Rightarrow>
     (string \<rightharpoonup> pyfloat) \<times> py_exception option" where
  "parse_response symbol_to_id [] prices = (prices, None)"
| "parse_response symbol_to_id ((cg_id, price_data) # rest) prices =
     (case price_data ''usd'' of
        None \<Rightarrow> parse_response symbol_to_id rest prices
      | Some usd \<Rightarrow>
          (case symbol_to_id cg_id of
             None \<Rightarrow> (prices, Some KeyError)
           | Some symbol \<Rightarrow> parse_response symbol_to_id rest (prices(symbol \<mapsto> usd))))"

definition price_url :: "string list \<Rightarrow> string" where
  "price_url coingecko_ids =
     ''https://api.coingecko.com/api/v3/simple/price?ids='' @ join '','' coingecko_ids
       @ ''&vs_currencies=usd''"

text \<open>
  \<^verbatim>\<open>get_token_prices\<close>. The result is the list of URLs requested (none or one) and the
  dictionary returned. Both exception handlers return \<open>prices\<close> as it stands.
\<close>

definition get_token_prices :: "world \<Rightarrow> string list \<Rightarrow> string list \<times> (string \<rightharpoonup> pyfloat)" where
  "get_token_prices w symbols =
     (case map_symbols symbols [] Map.empty of
        (coingecko_ids, symbol_to_id) \<Rightarrow>
          if coingecko_ids = [] then ([], Map.empty)
          else
            ([price_url coingecko_ids],
             case http_get w (price_url coingecko_ids) of
               Inl e \<Rightarrow> Map.empty
             | Inr data \<Rightarrow> fst (parse_response symbol_to_id data Map.empty)))"

section \<open>A world for the examples\<close>

text \<open>
  In \<open>example_world up raw resp\<close> the connectivity check answers \<open>up\<close>,
  an address is its own checksum, every \<open>getUserAccountData\<close> returns the tuple
  \<open>raw\<close>, the reads of a Compound market fail, the environment is empty and the price
  query has the outcome \<open>resp\<close>.
\<close>

definition example_world :: "bool \<Rightarrow> raw_account \<Rightarrow> py_exception + json_prices \<Rightarrow> world" where
  "example_world up raw resp =
     \<lparr>getenv = (\<lambda>name. None),
      is_connected = (\<lambda>rpc_url. up),
      to_checksum_address = (\<lambda>address. Inr address),
      getUserAccountData = (\<lambda>rpc_url contract wallet. Inr raw),
      borrowBalanceOf = (\<lambda>rpc_url contract wallet. Inl OtherException),
      collateralBalanceOf = (\<lambda>rpc_url contract wallet. Inl OtherException),
      getPrice = (\<lambda>rpc_url contract. Inl OtherException),
      http_get = (\<lambda>url. resp)\<rparr>"

section \<open>Health factor\<close>

text \<open>
  C1. For a collateral and a debt that are not negative and a threshold between 0 and 1,
  \<open>calculate_health_factor\<close> returns infinity when the debt is zero and otherwise the
  product of collateral and threshold divided by the debt; the result is never below
  zero. On finite inputs with a debt other than zero it is the real number
  \<open>x * y / z\<close>. In particular (100, 50, 0.8) gives 1.6 and (100, 100, 0.8) gives 0.8.
\<close>

theorem calculate_health_factor_spec:
  assumes "py_le (Fin 0) c" and "py_le (Fin 0) d" and "py_le (Fin 0) t" and "py_le t (Fin 1)"
  shows "calculate_health_factor c d t =
           Inr (if py_eq d (Fin 0) then PInf else float_div (py_mul c t) d)
       \<and> \<not> py_lt (if py_eq d (Fin 0) then PInf else float_div (py_mul c t) d) (Fin 0)
       \<and> (\<forall>x y z. c = Fin x \<and> t = Fin y \<and> d = Fin z \<and> z \<noteq> 0 \<longrightarrow>
            calculate_health_factor c d t = Inr (Fin (x * y / z)) \<and> 0 \<le> x * y / z)
       \<and> calculate_health_factor (Fin 100) (Fin 50) (Fin (8 / 10)) = Inr (Fin (16 / 10))
       \<and> calculate_health_factor (Fin 100) (Fin 100) (Fin (8 / 10)) = Inr (Fin (8 / 10))"
proof -
  obtain y where t: "t = Fin y" and y: "0 \<le> y" "y \<le> 1"
    using assms(3,4) by (cases t) (auto simp: py_le_def py_lt_def py_eq_def)
  have c: "(\<exists>x. c = Fin x \<and> 0 \<le> x) \<or> c = PInf"
    using assms(1) by (cases c) (auto simp: py_le_def py_lt_def py_eq_def)
  have d: "(\<exists>z. d = Fin z \<and> 0 \<le> z) \<or> d = PInf"
    using assms(2) by (cases d) (auto simp: py_le_def py_lt_def py_eq_def)
  have eq: "calculate_health_factor c d t =
           Inr (if py_eq d (Fin 0) then PInf else float_div (py_mul c t) d)"
    by (simp add: calculate_health_factor_def py_truediv_def)
  have nonneg: "\<not> py_lt (if py_eq d (Fin 0) then PInf else float_div (py_mul c t) d) (Fin 0)"
  proof (cases "py_eq d (Fin 0)")
    case True
    then show ?thesis by (simp add: py_lt_def)
  next
    case False
    from c show ?thesis
    proof
      assume "\<exists>x. c = Fin x \<and> 0 \<le> x"
      then obtain x where x: "c = Fin x" "0 \<le> x" by blast
      from d show ?thesis
      proof
        assume "\<exists>z. d = Fin z \<and> 0 \<le> z"
        then obtain z where z: "d = Fin z" "0 \<le> z" by blast
        have "0 \<le> x * y / z" using x(2) y(1) z(2) by simp
        then show ?thesis using False by (simp add: x z t py_lt_def)
      next
        assume "d = PInf"
        then show ?thesis by (simp add: x t py_lt_def py_eq_def)
      qed
    next
      assume cinf: "c = PInf"
      show ?thesis
      proof (cases "y = 0")
        case True
        then show ?thesis using False by (simp add: cinf t inf_times_def py_lt_def)
      next
        case ynz: False
        then have ypos: "0 < y" using y(1) by simp
        from d show ?thesis
        proof
          assume "\<exists>z. d = Fin z \<and> 0 \<le> z"
          then obtain z where z: "d = Fin z" "0 \<le> z" by blast
          have "z \<noteq> 0" using False by (simp add: z py_eq_def)
          then have "0 < z" using z(2) by simp
          then show ?thesis using False ypos
            by (simp add: cinf z t inf_times_def py_lt_def)
        next
          assume "d = PInf"
          then show ?thesis using ypos by (simp add: cinf t inf_times_def py_lt_def py_eq_def)
        qed
      qed
    qed
  qed
  have fin: "\<forall>x y z. c = Fin x \<and> t = Fin y \<and> d = Fin z \<and> z \<noteq> 0 \<longrightarrow>
            calculate_health_factor c d t = Inr (Fin (x * y / z)) \<and> 0 \<le> x * y / z"
    using c d y t by (auto simp: calculate_health_factor_def py_truediv_def py_eq_def)
  have ex1: "calculate_health_factor (Fin 100) (Fin 50) (Fin (8 / 10)) = Inr (Fin (16 / 10))"
    by (simp add: calculate_health_factor_def py_truediv_def py_eq_def)
  have ex2: "calculate_health_factor (Fin 100) (Fin 100) (Fin (8 / 10)) = Inr (Fin (8 / 10))"
    by (simp add: calculate_health_factor_def py_truediv_def py_eq_def)
  from eq nonneg fin ex1 ex2 show ?thesis by blast
qed

theorem calculate_health_factor_spec_witness:
  "py_le (Fin 0) (Fin 100) \<and> py_le (Fin 0) (Fin 50) \<and> py_le (Fin 0) (Fin (8 / 10))
   \<and> py_le (Fin (8 / 10)) (Fin 1)
   \<and> calculate_health_factor (Fin 100) (Fin 50) (Fin (8 / 10)) = Inr (Fin (16 / 10))
   \<and> py_le (Fin 0) (Fin 0)
   \<and> calculate_health_factor (Fin 100) (Fin 0) (Fin (8 / 10)) = Inr PInf"
proof -
  have h: "py_le (Fin 0) (Fin 100)" "py_le (Fin 0) (Fin 50)" "py_le (Fin 0) (Fin (8 / 10))"
    "py_le (Fin (8 / 10)) (Fin 1)" "py_le (Fin 0) (Fin 0)"
    by (simp_all add: py_le_def py_lt_def py_eq_def)
  from calculate_health_factor_spec [OF h(1) h(2) h(3) h(4)]
  have a: "calculate_health_factor (Fin 100) (Fin 50) (Fin (8 / 10)) = Inr (Fin (16 / 10))"
    by (simp add: py_eq_def)
  from calculate_health_factor_spec [OF h(1) h(5) h(3) h(4)]
  have b: "calculate_health_factor (Fin 100) (Fin 0) (Fin (8 / 10)) = Inr PInf"
    by (simp add: py_eq_def)
  from h a b show ?thesis by simp
qed

section \<open>Liquidation price\<close>

lemma py_le_Fin: "py_le (Fin x) (Fin y) = (x \<le> y)"
  by (auto simp: py_le_def py_lt_def py_eq_def)

lemma py_le_PInf: "py_le a PInf = (a \<noteq> NaN)"
  by (cases a) (auto simp: py_le_def py_lt_def py_eq_def)

lemma py_le_NInf: "py_le NInf a = (a \<noteq> NaN)"
  by (cases a) (auto simp: py_le_def py_lt_def py_eq_def)

lemma py_le_NaN: "\<not> py_le NaN a" "\<not> py_le a NaN"
  by (cases a; simp add: py_le_def py_lt_def py_eq_def)+

lemma py_le_PInf_left: "py_le PInf a = (a = PInf)"
  by (cases a) (auto simp: py_le_def py_lt_def py_eq_def)

lemma py_le_NInf_right: "py_le a NInf = (a = NInf)"
  by (cases a) (auto simp: py_le_def py_lt_def py_eq_def)

lemma py_gt_NaN: "\<not> py_gt NaN a" "\<not> py_gt a NaN"
  by (cases a; simp add: py_gt_def py_lt_def)+

lemma py_eq_zero: "py_eq a (Fin 0) = (a = Fin 0)"
  by (auto simp: py_eq_def)

lemmas py_order_simps =
  py_le_Fin py_le_PInf py_le_NInf py_le_NaN py_le_PInf_left py_le_NInf_right py_gt_NaN
  py_eq_zero

lemma py_le_trans: "py_le a b \<Longrightarrow> py_le b c \<Longrightarrow> py_le a c"
  by (cases a; cases b; cases c) (simp_all add: py_order_simps)

lemma py_le_not_gt: "py_le a b \<Longrightarrow> \<not> py_gt a b"
  by (cases a; cases b) (auto simp: py_gt_def py_lt_def py_order_simps)

lemma py_gt_zero_cases: "py_gt c (Fin 0) \<Longrightarrow> (\<exists>x. c = Fin x \<and> 0 < x) \<or> c = PInf"
  by (cases c) (auto simp: py_gt_def py_lt_def)

lemma rounding_mono: "rounding fl \<Longrightarrow> x \<le> y \<Longrightarrow> py_le (fl x) (fl y)"
  by (simp add: rounding_def)

lemma rounding_zero: "rounding fl \<Longrightarrow> fl 0 = Fin 0"
  by (simp add: rounding_def)

lemma rounding_not_NaN: "rounding fl \<Longrightarrow> fl x \<noteq> NaN"
  using rounding_mono [of fl x x] by (auto simp: py_order_simps)

lemma rounding_nonneg: "rounding fl \<Longrightarrow> 0 \<le> x \<Longrightarrow> py_le (Fin 0) (fl x)"
  using rounding_mono [of fl 0 x] by (simp add: rounding_zero)

lemma rounding_nonpos: "rounding fl \<Longrightarrow> x \<le> 0 \<Longrightarrow> py_le (fl x) (Fin 0)"
  using rounding_mono [of fl x 0] by (simp add: rounding_zero)

lemma rounding_Fin: "rounding Fin"
  by (simp add: rounding_def py_order_simps)

lemma rounding_range_rounding:
  "0 < tiny \<Longrightarrow> tiny \<le> huge \<Longrightarrow> rounding (range_rounding tiny huge)"
  by (auto simp: rounding_def range_rounding_def py_order_simps)

lemma rounding_binary64_range: "rounding binary64_range"
  unfolding binary64_range_def
proof (rule rounding_range_rounding)
  show "(0::real) < 1 / 2 ^ 1075" by simp
  have "(1::real) / 2 ^ 1075 \<le> 1" by (simp add: divide_le_eq)
  also have "(1::real) \<le> 2 ^ 1024" by (rule one_le_power) simp
  finally show "(1::real) / 2 ^ 1075 \<le> 2 ^ 1024" .
qed

text \<open>The effective threshold \<open>liquidation_threshold / liquidation_bonus\<close>.\<close>

lemma eff_infinite_bonus:
  "rounding fl \<Longrightarrow> b = PInf \<or> b = NInf \<Longrightarrow> rounded fl (float_div (Fin y) b) = Fin 0"
  by (auto simp: rounded_def rounding_zero)

lemma eff_finite_bonus:
  "rounded fl (float_div (Fin y) (Fin z)) = fl (y / z)"
  by (simp add: rounded_def)

text \<open>The product of a positive collateral amount and the effective threshold.\<close>

lemma mul_pos_mono:
  assumes "rounding fl" and "py_gt c (Fin 0)" and "py_le e2 e1"
    and "float_mul fl c e1 \<noteq> NaN" and "float_mul fl c e2 \<noteq> NaN"
  shows "py_le (float_mul fl c e2) (float_mul fl c e1)"
proof -
  from py_gt_zero_cases [OF assms(2)] show ?thesis
  proof
    assume "\<exists>x. c = Fin x \<and> 0 < x"
    then obtain g where c: "c = Fin g" "0 < g" by blast
    show ?thesis
      using assms(1,3) c(2)
      by (cases e1; cases e2)
         (auto simp: c(1) float_mul_def rounded_def inf_times_def py_order_simps
               rounding_not_NaN intro!: rounding_mono)
  next
    assume c: "c = PInf"
    show ?thesis
      using assms(3,4,5)
      by (cases e1; cases e2)
         (auto simp: c float_mul_def rounded_def inf_times_def py_order_simps split: if_splits)
  qed
qed

lemma mul_pos_nonneg:
  assumes "rounding fl" and "py_gt c (Fin 0)" and "py_le (Fin 0) e"
    and "float_mul fl c e \<noteq> NaN"
  shows "py_le (Fin 0) (float_mul fl c e)"
proof -
  from py_gt_zero_cases [OF assms(2)] show ?thesis
  proof
    assume "\<exists>x. c = Fin x \<and> 0 < x"
    then obtain g where c: "c = Fin g" "0 < g" by blast
    show ?thesis
      using assms(1,3) c(2)
      by (cases e)
         (auto simp: c(1) float_mul_def rounded_def inf_times_def py_order_simps
               intro!: rounding_nonneg)
  next
    assume c: "c = PInf"
    show ?thesis
      using assms(3,4)
      by (cases e)
         (auto simp: c float_mul_def rounded_def inf_times_def py_order_simps split: if_splits)
  qed
qed

lemma mul_pos_nonpos:
  assumes "rounding fl" and "py_gt c (Fin 0)" and "py_le e (Fin 0)"
    and "float_mul fl c e \<noteq> NaN"
  shows "py_le (float_mul fl c e) (Fin 0)"
proof -
  from py_gt_zero_cases [OF assms(2)] show ?thesis
  proof
    assume "\<exists>x. c = Fin x \<and> 0 < x"
    then obtain g where c: "c = Fin g" "0 < g" by blast
    show ?thesis
      using assms(1,3) c(2)
      by (cases e)
         (auto simp: c(1) float_mul_def rounded_def inf_times_def py_order_simps
               mult_le_0_iff intro!: rounding_nonpos)
  next
    assume c: "c = PInf"
    show ?thesis
      using assms(3,4)
      by (cases e)
         (auto simp: c float_mul_def rounded_def inf_times_def py_order_simps split: if_splits)
  qed
qed

text \<open>The quotient of a debt value that is not negative by a divisor of one sign.\<close>

lemma nonneg_cases: "py_le (Fin 0) a \<Longrightarrow> (\<exists>x. a = Fin x \<and> 0 \<le> x) \<or> a = PInf"
  by (cases a) (auto simp: py_order_simps)

lemma div_antimono:
  assumes "rounding fl" and "py_le (Fin 0) n" and "py_le x2 x1"
    and "py_lt (Fin 0) x2 \<or> py_lt x1 (Fin 0)"
    and "rounded fl (float_div n x1) \<noteq> NaN" and "rounded fl (float_div n x2) \<noteq> NaN"
  shows "py_le (rounded fl (float_div n x1)) (rounded fl (float_div n x2))"
proof -
  from nonneg_cases [OF assms(2)] show ?thesis
  proof
    assume "\<exists>x. n = Fin x \<and> 0 \<le> x"
    then obtain m where n: "n = Fin m" "0 \<le> m" by blast
    have frac: "\<And>a b. b \<le> a \<Longrightarrow> 0 < a * b \<Longrightarrow> py_le (fl (m / a)) (fl (m / b))"
      using assms(1) n(2) by (intro rounding_mono divide_left_mono) simp_all
    show ?thesis
      using assms(1,3,4) n(2)
      by (cases x1; cases x2)
         (auto simp: n(1) rounded_def py_order_simps py_lt_def rounding_zero
               rounding_not_NaN zero_less_mult_iff divide_nonneg_pos divide_nonneg_neg
               intro!: frac rounding_nonneg rounding_nonpos)
  next
    assume n: "n = PInf"
    show ?thesis
      using assms(3,4,5,6)
      by (cases x1; cases x2)
         (auto simp: n rounded_def inf_times_def py_order_simps py_lt_def split: if_splits)
  qed
qed

lemma div_sign:
  assumes "rounding fl" and "py_le (Fin 0) n" and "rounded fl (float_div n x) \<noteq> NaN"
  shows "(py_lt (Fin 0) x \<longrightarrow> py_le (Fin 0) (rounded fl (float_div n x)))
       \<and> (py_lt x (Fin 0) \<longrightarrow> py_le (rounded fl (float_div n x)) (Fin 0))"
proof -
  from nonneg_cases [OF assms(2)] show ?thesis
  proof
    assume "\<exists>x. n = Fin x \<and> 0 \<le> x"
    then obtain m where n: "n = Fin m" "0 \<le> m" by blast
    show ?thesis
      using assms(1) n(2)
      by (cases x)
         (auto simp: n(1) rounded_def py_order_simps py_lt_def rounding_zero
               divide_nonneg_pos divide_nonneg_neg divide_le_0_iff
               intro!: rounding_nonneg rounding_nonpos)
  next
    assume n: "n = PInf"
    show ?thesis
      using assms(3)
      by (cases x)
         (auto simp: n rounded_def inf_times_def py_order_simps py_lt_def split: if_splits)
  qed
qed

lemma calculate_liquidation_price_Some:
  "calculate_liquidation_price fl c d p t (Some b) =
     (if py_eq c (Fin 0) then Inr (Fin 0)
      else if py_eq b (Fin 0)
              \<or> py_eq (float_mul fl c (rounded fl (float_div t b))) (Fin 0)
      then Inl ZeroDivisionError
      else Inr (rounded fl (float_div (float_mul fl d p)
                  (float_mul fl c (rounded fl (float_div t b))))))"
  by (simp add: calculate_liquidation_price_def float_truediv_def)

lemma calculate_liquidation_price_None:
  "calculate_liquidation_price fl c d p t None =
   calculate_liquidation_price fl c d p t (Some (fl (105 / 100)))"
  by (simp add: calculate_liquidation_price_def default_liquidation_bonus_def)

lemma liquidation_price_returns:
  assumes "calculate_liquidation_price fl c d p t (Some b) = Inr r" and "py_gt c (Fin 0)"
  shows "b \<noteq> Fin 0
       \<and> float_mul fl c (rounded fl (float_div t b)) \<noteq> Fin 0
       \<and> r = rounded fl (float_div (float_mul fl d p)
                 (float_mul fl c (rounded fl (float_div t b))))"
proof -
  from assms(2) have "c \<noteq> Fin 0" by (auto simp: py_gt_def py_lt_def)
  with assms(1) show ?thesis
    by (auto simp: calculate_liquidation_price_Some py_order_simps split: if_splits)
qed

lemma debt_value_nonneg:
  assumes "rounding fl" and "py_gt d (Fin 0)" and "py_gt p (Fin 0)"
  shows "py_le (Fin 0) (float_mul fl d p)"
proof -
  from py_gt_zero_cases [OF assms(2)] show ?thesis
  proof
    assume "\<exists>x. d = Fin x \<and> 0 < x"
    then obtain a where a: "d = Fin a" "0 < a" by blast
    from py_gt_zero_cases [OF assms(3)] show ?thesis
    proof
      assume "\<exists>x. p = Fin x \<and> 0 < x"
      then obtain b where b: "p = Fin b" "0 < b" by blast
      have "py_le (Fin 0) (fl (a * b))"
        using a(2) b(2) by (intro rounding_nonneg [OF assms(1)]) simp
      then show ?thesis by (simp add: a(1) b(1) float_mul_def rounded_def)
    next
      assume "p = PInf"
      then show ?thesis
        using a(2) by (simp add: a(1) float_mul_def rounded_def inf_times_def py_order_simps)
    qed
  next
    assume dinf: "d = PInf"
    from py_gt_zero_cases [OF assms(3)] show ?thesis
      by (auto simp: dinf float_mul_def rounded_def inf_times_def py_order_simps)
  qed
qed

lemma rounded_NaN: "rounded fl NaN = NaN"
  by (simp add: rounded_def)

lemma float_div_NaN: "float_div n NaN = NaN"
  by (cases n) simp_all

text \<open>Where a call returns a number, the bonus is finite and the price has its sign.\<close>

lemma liquidation_price_one_bonus:
  assumes fl: "rounding fl"
    and c: "py_gt c (Fin 0)" and d: "py_gt d (Fin 0)" and p: "py_gt p (Fin 0)"
    and t: "t = Fin y" "0 < y"
    and ret: "calculate_liquidation_price fl c d p t (Some b) = Inr r"
    and r: "r \<noteq> NaN"
  shows "\<exists>z. b = Fin z \<and> z \<noteq> 0
           \<and> float_mul fl c (fl (y / z)) \<noteq> NaN
           \<and> float_mul fl c (fl (y / z)) \<noteq> Fin 0
           \<and> r = rounded fl (float_div (float_mul fl d p) (float_mul fl c (fl (y / z))))
           \<and> (0 < z \<longrightarrow> py_le (Fin 0) (fl (y / z))
                 \<and> py_lt (Fin 0) (float_mul fl c (fl (y / z))) \<and> py_le (Fin 0) r)
           \<and> (z < 0 \<longrightarrow> py_le (fl (y / z)) (Fin 0)
                 \<and> py_lt (float_mul fl c (fl (y / z))) (Fin 0) \<and> py_le r (Fin 0))"
proof -
  let ?n = "float_mul fl d p"
  let ?x = "float_mul fl c (rounded fl (float_div t b))"
  note R = liquidation_price_returns [OF ret c]
  have n: "py_le (Fin 0) ?n" by (rule debt_value_nonneg [OF fl d p])
  have xn: "?x \<noteq> NaN"
    using R r by (auto simp: float_div_NaN rounded_NaN)
  have binf: "b \<noteq> PInf \<and> b \<noteq> NInf \<and> b \<noteq> NaN"
  proof -
    have "b = PInf \<or> b = NInf \<Longrightarrow> False"
    proof -
      assume "b = PInf \<or> b = NInf"
      then have e: "rounded fl (float_div t b) = Fin 0"
        unfolding t(1) by (rule eff_infinite_bonus [OF fl])
      from py_gt_zero_cases [OF c] show False
      proof
        assume "\<exists>x. c = Fin x \<and> 0 < x"
        then obtain g where "c = Fin g" by blast
        then have "?x = Fin 0"
          unfolding e by (simp add: float_mul_def rounded_def rounding_zero [OF fl])
        with R show False by simp
      next
        assume "c = PInf"
        then have "?x = NaN"
          unfolding e by (simp add: float_mul_def rounded_def inf_times_def)
        with xn show False by simp
      qed
    qed
    moreover have "b = NaN \<Longrightarrow> False"
    proof -
      assume "b = NaN"
      then have "rounded fl (float_div t b) = NaN" by (simp add: t(1) rounded_def)
      then have "?x = NaN" by (cases c) (simp_all add: float_mul_def rounded_def)
      with xn show False by simp
    qed
    ultimately show ?thesis by blast
  qed
  then obtain z where z: "b = Fin z" by (cases b) auto
  from R have znz: "z \<noteq> 0" by (simp add: z)
  have e: "rounded fl (float_div t b) = fl (y / z)"
    by (simp add: t(1) z rounded_def)
  let ?x' = "float_mul fl c (fl (y / z))"
  from xn e have xn': "?x' \<noteq> NaN" by simp
  from R e have xz: "?x' \<noteq> Fin 0" by simp
  from R e have req: "r = rounded fl (float_div ?n ?x')" by simp
  from r req have dn: "rounded fl (float_div ?n ?x') \<noteq> NaN" by simp
  note sign = div_sign [OF fl n dn]
  have pos: "0 < z \<longrightarrow> py_le (Fin 0) (fl (y / z))
                 \<and> py_lt (Fin 0) ?x' \<and> py_le (Fin 0) r"
  proof
    assume "0 < z"
    then have e0: "py_le (Fin 0) (fl (y / z))"
      using t(2) by (intro rounding_nonneg [OF fl]) simp
    from mul_pos_nonneg [OF fl c e0 xn'] xz have xpos: "py_lt (Fin 0) ?x'"
      by (cases ?x') (auto simp: py_order_simps py_lt_def)
    with sign req show "py_le (Fin 0) (fl (y / z)) \<and> py_lt (Fin 0) ?x' \<and> py_le (Fin 0) r"
      using e0 by simp
  qed
  have neg: "z < 0 \<longrightarrow> py_le (fl (y / z)) (Fin 0)
                 \<and> py_lt ?x' (Fin 0) \<and> py_le r (Fin 0)"
  proof
    assume "z < 0"
    then have e0: "py_le (fl (y / z)) (Fin 0)"
      using t(2) by (intro rounding_nonpos [OF fl]) (simp add: divide_le_0_iff)
    from mul_pos_nonpos [OF fl c e0 xn'] xz have xneg: "py_lt ?x' (Fin 0)"
      by (cases ?x') (auto simp: py_order_simps py_lt_def)
    with sign req show "py_le (fl (y / z)) (Fin 0) \<and> py_lt ?x' (Fin 0) \<and> py_le r (Fin 0)"
      using e0 by simp
  qed
  from z znz xn' xz req pos neg show ?thesis by blast
qed

text \<open>
  C3, as the claim states it, fails: with every other argument 1, the bonus 1 gives the
  price 1 and the larger bonus 2 gives the larger price 2, with and without the bounds of
  a double.
\<close>

theorem liquidation_price_decreasing_counterexample:
  "calculate_liquidation_price Fin (Fin 1) (Fin 1) (Fin 1) (Fin 1) (Some (Fin 1)) = Inr (Fin 1)
   \<and> calculate_liquidation_price Fin (Fin 1) (Fin 1) (Fin 1) (Fin 1) (Some (Fin 2)) = Inr (Fin 2)
   \<and> calculate_liquidation_price binary64_range (Fin 1) (Fin 1) (Fin 1) (Fin 1) (Some (Fin 1))
        = Inr (Fin 1)
   \<and> calculate_liquidation_price binary64_range (Fin 1) (Fin 1) (Fin 1) (Fin 1) (Some (Fin 2))
        = Inr (Fin 2)
   \<and> py_lt (Fin 1) (Fin 2) \<and> \<not> py_gt (Fin 1) (Fin 2)"
  by (simp add: calculate_liquidation_price_Some float_mul_def rounded_def py_order_simps
      binary64_range_def range_rounding_def py_lt_def py_gt_def)

text \<open>
  C3, amended. For a positive collateral amount, debt amount and debt price (infinity
  included), a threshold in (0, 1] and every rounding, the liquidation price never
  decreases as the bonus grows: if \<open>b1 < b2\<close> and both calls return, the price for
  \<open>b1\<close> is not greater than the price for \<open>b2\<close>, and it is less than or equal to it
  unless one of the two is not-a-number.
\<close>

theorem liquidation_price_not_decreasing_in_bonus:
  assumes "rounding fl"
    and "py_gt c (Fin 0)" and "py_gt d (Fin 0)" and "py_gt p (Fin 0)"
    and "py_gt t (Fin 0)" and "py_le t (Fin 1)"
    and "py_lt b1 b2"
    and "calculate_liquidation_price fl c d p t (Some b1) = Inr r1"
    and "calculate_liquidation_price fl c d p t (Some b2) = Inr r2"
  shows "\<not> py_gt r1 r2 \<and> (r1 = NaN \<or> r2 = NaN \<or> py_le r1 r2)"
proof (cases "r1 = NaN \<or> r2 = NaN")
  case True
  then show ?thesis by (auto simp: py_order_simps)
next
  case False
  then have r1: "r1 \<noteq> NaN" and r2: "r2 \<noteq> NaN" by simp_all
  note fl = assms(1)
  from assms(5,6) obtain y where t: "t = Fin y" "0 < y"
    by (cases t) (auto simp: py_gt_def py_lt_def py_order_simps)
  let ?n = "float_mul fl d p"
  have n: "py_le (Fin 0) ?n" by (rule debt_value_nonneg [OF fl assms(3,4)])
  from liquidation_price_one_bonus [OF fl assms(2,3,4) t assms(8) r1]
  obtain z1 where z1: "b1 = Fin z1" "z1 \<noteq> 0"
    "float_mul fl c (fl (y / z1)) \<noteq> NaN"
    "r1 = rounded fl (float_div ?n (float_mul fl c (fl (y / z1))))"
    "0 < z1 \<longrightarrow> py_le (Fin 0) r1"
    "z1 < 0 \<longrightarrow> py_lt (float_mul fl c (fl (y / z1))) (Fin 0) \<and> py_le r1 (Fin 0)"
    by blast
  from liquidation_price_one_bonus [OF fl assms(2,3,4) t assms(9) r2]
  obtain z2 where z2: "b2 = Fin z2" "z2 \<noteq> 0"
    "float_mul fl c (fl (y / z2)) \<noteq> NaN"
    "r2 = rounded fl (float_div ?n (float_mul fl c (fl (y / z2))))"
    "0 < z2 \<longrightarrow> py_lt (Fin 0) (float_mul fl c (fl (y / z2))) \<and> py_le (Fin 0) r2"
    "z2 < 0 \<longrightarrow> py_le r2 (Fin 0)"
    by blast
  from assms(7) have lt: "z1 < z2" by (simp add: z1(1) z2(1) py_lt_def)
  let ?x1 = "float_mul fl c (fl (y / z1))"
  let ?x2 = "float_mul fl c (fl (y / z2))"
  have le: "py_le r1 r2"
  proof (cases "0 < z1 \<or> z2 < 0")
    case True
    then have prod: "0 < z2 * z1"
      using lt by (auto simp: zero_less_mult_iff)
    have "y / z2 \<le> y / z1"
      using lt t(2) prod by (intro divide_left_mono) simp_all
    then have "py_le (fl (y / z2)) (fl (y / z1))" by (rule rounding_mono [OF fl])
    from mul_pos_mono [OF fl assms(2) this z1(3) z2(3)] have x: "py_le ?x2 ?x1" .
    have side: "py_lt (Fin 0) ?x2 \<or> py_lt ?x1 (Fin 0)"
      using True lt z1(6) z2(5) by auto
    have "py_le (rounded fl (float_div ?n ?x1)) (rounded fl (float_div ?n ?x2))"
      using r1 r2 by (intro div_antimono [OF fl n x side]) (simp_all add: z1(4) [symmetric] z2(4) [symmetric])
    then show ?thesis by (simp add: z1(4) z2(4))
  next
    case False
    with z1(2) z2(2) have "z1 < 0" "0 < z2" by auto
    with z1(6) z2(5) have "py_le r1 (Fin 0)" "py_le (Fin 0) r2" by simp_all
    then show ?thesis by (rule py_le_trans)
  qed
  then show ?thesis by (simp add: py_le_not_gt)
qed

theorem liquidation_price_not_decreasing_in_bonus_witness:
  "rounding binary64_range
   \<and> py_lt (Fin 1) (Fin (105 / 100))
   \<and> calculate_liquidation_price binary64_range (Fin 2) (Fin 1000) (Fin 1) (Fin (8 / 10))
        (Some (Fin 1)) = Inr (Fin 625)
   \<and> calculate_liquidation_price binary64_range (Fin 2) (Fin 1000) (Fin 1) (Fin (8 / 10))
        (Some (Fin (105 / 100))) = Inr (Fin (65625 / 100))
   \<and> \<not> py_gt (Fin 625) (Fin (65625 / 100))
   \<and> py_le (Fin 625) (Fin (65625 / 100))"
proof -
  have h: "py_gt (Fin 2) (Fin 0)" "py_gt (Fin 1000) (Fin 0)" "py_gt (Fin 1) (Fin 0)"
    "py_gt (Fin (8 / 10)) (Fin 0)" "py_le (Fin (8 / 10)) (Fin 1)"
    "py_lt (Fin 1) (Fin (105 / 100))"
    by (simp_all add: py_gt_def py_lt_def py_order_simps)
  have e1: "calculate_liquidation_price binary64_range (Fin 2) (Fin 1000) (Fin 1) (Fin (8 / 10))
        (Some (Fin 1)) = Inr (Fin 625)"
    by (simp add: calculate_liquidation_price_Some float_mul_def rounded_def py_order_simps
        binary64_range_def range_rounding_def)
  have e2: "calculate_liquidation_price binary64_range (Fin 2) (Fin 1000) (Fin 1) (Fin (8 / 10))
        (Some (Fin (105 / 100))) = Inr (Fin (65625 / 100))"
    by (simp add: calculate_liquidation_price_Some float_mul_def rounded_def py_order_simps
        binary64_range_def range_rounding_def)
  from liquidation_price_not_decreasing_in_bonus
    [OF rounding_binary64_range h(1) h(2) h(3) h(4) h(5) h(6) e1 e2]
  have "\<not> py_gt (Fin 625) (Fin (65625 / 100)) \<and> py_le (Fin 625) (Fin (65625 / 100))"
    by simp
  with rounding_binary64_range h(6) e1 e2 show ?thesis by simp
qed

text \<open>
  C4, as the claim states it, fails: with a collateral amount other than zero the call
  raises \<open>ZeroDivisionError\<close> instead of returning a price when the threshold is zero,
  when the bonus is zero, when the bonus is infinite, and when the effective threshold
  underflows to zero (threshold \<open>1e-200\<close>, bonus \<open>1e200\<close>).
\<close>

theorem calculate_liquidation_price_zero_divisor:
  "calculate_liquidation_price Fin (Fin 1) (Fin 1) (Fin 1) (Fin 0) None = Inl ZeroDivisionError
   \<and> calculate_liquidation_price Fin (Fin 1) (Fin 1) (Fin 1) (Fin 1) (Some (Fin 0))
        = Inl ZeroDivisionError
   \<and> calculate_liquidation_price Fin (Fin 1) (Fin 1) (Fin 1) (Fin 1) (Some PInf)
        = Inl ZeroDivisionError
   \<and> calculate_liquidation_price binary64_range (Fin 1) (Fin 1) (Fin 1) (Fin 0) None
        = Inl ZeroDivisionError
   \<and> calculate_liquidation_price binary64_range (Fin 1) (Fin 1) (Fin 1) (Fin 1) (Some PInf)
        = Inl ZeroDivisionError
   \<and> calculate_liquidation_price binary64_range (Fin 1) (Fin 1) (Fin 1) (Fin (1 / 10 ^ 200))
        (Some (Fin (10 ^ 200))) = Inl ZeroDivisionError"
  by (simp add: calculate_liquidation_price_Some calculate_liquidation_price_None
      float_mul_def rounded_def py_order_simps binary64_range_def range_rounding_def)

text \<open>
  C4, amended. \<open>calculate_liquidation_price\<close> returns 0 when the collateral amount is
  zero, whatever the other arguments. Otherwise it raises \<open>ZeroDivisionError\<close> when the
  bonus is zero or when the product of the collateral amount and the effective threshold,
  as computed, is zero; in every other case it returns the debt amount times the debt
  price, divided by the product of the collateral amount and the effective threshold,
  where the effective threshold is the threshold divided by the bonus and every operation
  is rounded. A call without a bonus uses the float for 1.05. In arithmetic without
  rounding, on a finite collateral amount, threshold and bonus other than zero, the
  result is the real number \<open>(u * v) / (x * (y / z))\<close>.
\<close>

theorem calculate_liquidation_price_spec:
  "calculate_liquidation_price fl (Fin 0) d p t bonus = Inr (Fin 0)
   \<and> (\<not> py_eq c (Fin 0) \<longrightarrow>
        calculate_liquidation_price fl c d p t (Some b) =
          (if py_eq b (Fin 0)
              \<or> py_eq (float_mul fl c (rounded fl (float_div t b))) (Fin 0)
           then Inl ZeroDivisionError
           else Inr (rounded fl (float_div (float_mul fl d p)
                       (float_mul fl c (rounded fl (float_div t b)))))))
   \<and> calculate_liquidation_price fl c d p t None =
       calculate_liquidation_price fl c d p t (Some (fl (105 / 100)))
   \<and> (x \<noteq> 0 \<and> y \<noteq> 0 \<and> z \<noteq> 0 \<longrightarrow>
        calculate_liquidation_price Fin (Fin x) (Fin u) (Fin v) (Fin y) (Some (Fin z))
          = Inr (Fin ((u * v) / (x * (y / z)))))"
proof (intro conjI)
  show "calculate_liquidation_price fl (Fin 0) d p t bonus = Inr (Fin 0)"
    by (simp add: calculate_liquidation_price_def py_order_simps)
  show "\<not> py_eq c (Fin 0) \<longrightarrow>
        calculate_liquidation_price fl c d p t (Some b) =
          (if py_eq b (Fin 0)
              \<or> py_eq (float_mul fl c (rounded fl (float_div t b))) (Fin 0)
           then Inl ZeroDivisionError
           else Inr (rounded fl (float_div (float_mul fl d p)
                       (float_mul fl c (rounded fl (float_div t b))))))"
    by (simp add: calculate_liquidation_price_Some)
  show "calculate_liquidation_price fl c d p t None =
       calculate_liquidation_price fl c d p t (Some (fl (105 / 100)))"
    by (rule calculate_liquidation_price_None)
  show "x \<noteq> 0 \<and> y \<noteq> 0 \<and> z \<noteq> 0 \<longrightarrow>
        calculate_liquidation_price Fin (Fin x) (Fin u) (Fin v) (Fin y) (Some (Fin z))
          = Inr (Fin ((u * v) / (x * (y / z))))"
    by (simp add: calculate_liquidation_price_Some float_mul_def rounded_def py_order_simps)
qed

theorem calculate_liquidation_price_spec_witness:
  "calculate_liquidation_price binary64_range (Fin 0) (Fin 7) NaN PInf (Some (Fin 0)) = Inr (Fin 0)
   \<and> calculate_liquidation_price binary64_range (Fin 2) (Fin 1000) (Fin 1) (Fin (8 / 10))
        (Some (Fin 2)) = Inr (Fin 1250)
   \<and> calculate_liquidation_price binary64_range (Fin 2) (Fin 1000) (Fin 1) (Fin 0)
        (Some (Fin 2)) = Inl ZeroDivisionError
   \<and> calculate_liquidation_price Fin (Fin 2) (Fin 1000) (Fin 1) (Fin (8 / 10)) None
        = Inr (Fin (65625 / 100))"
proof -
  note a = calculate_liquidation_price_spec
    [where fl = binary64_range and d = "Fin 7" and p = NaN and t = PInf
       and bonus = "Some (Fin 0)" and c = "Fin 2" and b = "Fin 2"]
  note b = calculate_liquidation_price_spec
    [where fl = binary64_range and d = "Fin 1000" and p = "Fin 1" and t = "Fin (8 / 10)"
       and c = "Fin 2" and b = "Fin 2"]
  note c = calculate_liquidation_price_spec
    [where fl = binary64_range and d = "Fin 1000" and p = "Fin 1" and t = "Fin 0"
       and c = "Fin 2" and b = "Fin 2"]
  note d = calculate_liquidation_price_spec
    [where fl = Fin and d = "Fin 1000" and p = "Fin 1" and t = "Fin (8 / 10)"
       and c = "Fin 2" and x = 2 and u = 1000 and v = 1 and y = "8 / 10" and z = "105 / 100"]
  have 1: "calculate_liquidation_price binary64_range (Fin 0) (Fin 7) NaN PInf (Some (Fin 0))
      = Inr (Fin 0)"
    using a by blast
  have 2: "calculate_liquidation_price binary64_range (Fin 2) (Fin 1000) (Fin 1) (Fin (8 / 10))
        (Some (Fin 2)) = Inr (Fin 1250)"
    using b by (simp add: float_mul_def rounded_def py_order_simps binary64_range_def
        range_rounding_def)
  have 3: "calculate_liquidation_price binary64_range (Fin 2) (Fin 1000) (Fin 1) (Fin 0)
        (Some (Fin 2)) = Inl ZeroDivisionError"
    using c by (simp add: float_mul_def rounded_def py_order_simps binary64_range_def
        range_rounding_def)
  have 4: "calculate_liquidation_price Fin (Fin 2) (Fin 1000) (Fin 1) (Fin (8 / 10)) None
        = Inr (Fin (65625 / 100))"
    using d by simp
  from 1 2 3 4 show ?thesis by simp
qed

section \<open>Severity classification\<close>

text \<open>
  C5. With the default thresholds, every health factor below 1.05 is critical with an
  alert, every other one below 1.2 is a warning with an alert, and everything else
  (infinity and not-a-number included) is safe without an alert. The bounds are exclusive
  below: 1.05 itself is a warning, 1.2 itself is safe, 1.049 is critical.
\<close>

theorem should_alert_default_tiers:
  "should_alert hf None =
     (if py_lt hf (Fin (105 / 100)) then (True, ''critical'')
      else if py_lt hf (Fin (12 / 10)) then (True, ''warning'')
      else (False, ''safe''))
   \<and> should_alert (Fin x) None =
     (if x < 105 / 100 then (True, ''critical'')
      else if x < 12 / 10 then (True, ''warning'')
      else (False, ''safe''))
   \<and> should_alert PInf None = (False, ''safe'')
   \<and> should_alert (Fin (105 / 100)) None = (True, ''warning'')
   \<and> should_alert (Fin (12 / 10)) None = (False, ''safe'')
   \<and> should_alert (Fin (1049 / 1000)) None = (True, ''critical'')"
  by (simp add: should_alert_def default_alert_threshold_def py_lt_def)

theorem should_alert_default_tiers_witness:
  "should_alert (Fin (105 / 100)) None = (True, ''warning'')
   \<and> should_alert (Fin (12 / 10)) None = (False, ''safe'')
   \<and> should_alert (Fin (1049 / 1000)) None = (True, ''critical'')
   \<and> should_alert (Fin 1) None = (True, ''critical'')
   \<and> should_alert NaN None = (False, ''safe'')"
  using should_alert_default_tiers [of "Fin 1" 1] should_alert_default_tiers [of NaN 1]
  by (simp add: py_lt_def)

section \<open>Normalisation of Aave-style account data\<close>

lemma py_truediv_of_uint:
  "0 < k \<Longrightarrow> py_truediv (of_uint x) (Fin k) = Inr (Fin (real (unat x) / k))"
  by (simp add: py_truediv_def py_eq_def of_uint_def)

lemma aave_get_user_account_data_eq:
  assumes "to_checksum_address w wallet = Inr wc"
    and "getUserAccountData w (self_w3 self) (self_contract self) wc = Inr (a, b, c, d, e, f)"
  shows "AaveV3Interface_get_user_account_data w self wallet =
           Some \<lparr>total_collateral_usd = Fin (real (unat a) / 10 ^ 8),
                 total_debt_usd = Fin (real (unat b) / 10 ^ 8),
                 available_borrows_usd = Fin (real (unat c) / 10 ^ 8),
                 liquidation_threshold = Fin (real (unat d) / 10 ^ 4),
                 ltv = Fin (real (unat e) / 10 ^ 4),
                 health_factor = Fin (real (unat f) / 10 ^ 18),
                 positions = []\<rparr>"
  using assms
  by (simp add: AaveV3Interface_get_user_account_data_def then_do_def except_none_def
      py_truediv_of_uint)

lemma aave_family_dispatch:
  "cls self \<noteq> CompoundV3Interface \<Longrightarrow>
   get_user_account_data w self wallet = AaveV3Interface_get_user_account_data w self wallet"
  by (cases "cls self") (simp_all add: get_user_account_data_def)

lemma unat_max_uint256: "unat (- 1 :: uint256) = 2 ^ 256 - 1"
  by (simp add: unsigned_minus_1_eq_mask mask_eq_exp_minus_1)

text \<open>
  C6. For an interface of the Aave family (Aave V3, Spark or Radiant) and every tuple the
  contract read returns, the account data holds the total collateral, the total debt and
  the available borrows divided by \<open>10 ^ 8\<close>, the liquidation threshold and the LTV
  divided by \<open>10 ^ 4\<close>, and the health factor divided by \<open>10 ^ 18\<close>; the tuple
  (500000000000, 250000000000, 0, 8250, 8000, 1650000000000000000) becomes 5000, 2500,
  0, 0.825, 0.8 and 1.65 (the witness).
\<close>

theorem aave_family_normalization:
  assumes "cls self \<noteq> CompoundV3Interface"
    and "to_checksum_address w wallet = Inr wc"
    and "getUserAccountData w (self_w3 self) (self_contract self) wc = Inr (a, b, c, d, e, f)"
  shows "get_user_account_data w self wallet =
           Some \<lparr>total_collateral_usd = Fin (real (unat a) / 10 ^ 8),
                 total_debt_usd = Fin (real (unat b) / 10 ^ 8),
                 available_borrows_usd = Fin (real (unat c) / 10 ^ 8),
                 liquidation_threshold = Fin (real (unat d) / 10 ^ 4),
                 ltv = Fin (real (unat e) / 10 ^ 4),
                 health_factor = Fin (real (unat f) / 10 ^ 18),
                 positions = []\<rparr>"
  using assms by (simp add: aave_family_dispatch aave_get_user_account_data_eq)

theorem aave_family_normalization_witness:
  "get_user_account_data
     (example_world True (500000000000, 250000000000, 0, 8250, 8000, 1650000000000000000)
        (Inl OtherException))
     \<lparr>cls = SparkInterface, self_chain_id = 1, self_w3 = ''https://eth.llamarpc.com'',
      self_contract = ''0xC13e21B648A5Ee794902342038FF3aDAB66BE987''\<rparr>
     ''0x0000000000000000000000000000000000000001''
   = Some \<lparr>total_collateral_usd = Fin 5000,
           total_debt_usd = Fin 2500,
           available_borrows_usd = Fin 0,
           liquidation_threshold = Fin (825 / 1000),
           ltv = Fin (8 / 10),
           health_factor = Fin (165 / 100),
           positions = []\<rparr>"
  using aave_family_normalization
    [of "\<lparr>cls = SparkInterface, self_chain_id = 1, self_w3 = ''https://eth.llamarpc.com'',
           self_contract = ''0xC13e21B648A5Ee794902342038FF3aDAB66BE987''\<rparr>"
        "example_world True (500000000000, 250000000000, 0, 8250, 8000, 1650000000000000000)
           (Inl OtherException)"
        "''0x0000000000000000000000000000000000000001''"
        "''0x0000000000000000000000000000000000000001''"
        500000000000 250000000000 0 8250 8000 1650000000000000000]
  by (simp add: example_world_def)


text \<open>
  The Compound interface computes the health factor itself and returns infinity for a
  position without debt.
\<close>

lemma compound_no_debt_health_factor:
  assumes "to_checksum_address w wallet = Inr wc"
    and "borrowBalanceOf w (self_w3 self) (self_contract self) wc = Inr 0"
    and "collateralBalanceOf w (self_w3 self) (self_contract self) wc = Inr cb"
    and "getPrice w (self_w3 self) (self_contract self) = Inr pr"
  shows "CompoundV3Interface_get_user_account_data w self wallet =
           Some \<lparr>total_collateral_usd = Fin (real (unat cb * unat pr) / 10 ^ 14),
                 total_debt_usd = Fin 0,
                 available_borrows_usd = Fin 0,
                 liquidation_threshold = Fin (8 / 10),
                 ltv = Fin (75 / 100),
                 health_factor = PInf,
                 positions = []\<rparr>"
  using assms
  by (simp add: CompoundV3Interface_get_user_account_data_def then_do_def except_none_def
      py_truediv_def py_eq_def py_gt_def py_lt_def of_uint_def)

lemma compound_dispatch:
  "cls self = CompoundV3Interface \<Longrightarrow>
   get_user_account_data w self wallet = CompoundV3Interface_get_user_account_data w self wallet"
  by (simp add: get_user_account_data_def)

text \<open>
  C2 fails on the code. Aave reports a position without debt by the largest \<open>uint256\<close>
  as its health factor; the interface of the Aave family only divides it, so the health
  factor of such a position is the finite number \<open>(2 ^ 256 - 1) / 10 ^ 18\<close> and not
  infinity. For a position without debt the Compound interface and
  \<open>calculate_health_factor\<close> both give infinity.
\<close>

theorem aave_no_debt_health_factor_not_infinite:
  "get_user_account_data
     (example_world True (0, 0, 0, 0, 0, - 1) (Inl OtherException))
     \<lparr>cls = AaveV3Interface, self_chain_id = 1, self_w3 = ''https://eth.llamarpc.com'',
      self_contract = ''0x87870Bca3F3fD6335C3F4ce8392D69350B4fA4E2''\<rparr>
     ''0x0000000000000000000000000000000000000001''
   = Some \<lparr>total_collateral_usd = Fin 0,
           total_debt_usd = Fin 0,
           available_borrows_usd = Fin 0,
           liquidation_threshold = Fin 0,
           ltv = Fin 0,
           health_factor = Fin ((2 ^ 256 - 1) / 10 ^ 18),
           positions = []\<rparr>
   \<and> Fin ((2 ^ 256 - 1) / 10 ^ 18) \<noteq> PInf
   \<and> unat (- 1 :: uint256) = 2 ^ 256 - 1
   \<and> get_user_account_data
       ((example_world True (0, 0, 0, 0, 0, - 1) (Inl OtherException))
          \<lparr>borrowBalanceOf := (\<lambda>rpc_url contract wallet. Inr 0),
           collateralBalanceOf := (\<lambda>rpc_url contract wallet. Inr 0),
           getPrice := (\<lambda>rpc_url contract. Inr 0)\<rparr>)
       \<lparr>cls = CompoundV3Interface, self_chain_id = 1, self_w3 = ''https://eth.llamarpc.com'',
        self_contract = ''0xc3d688B66703497DAA19211EEdff47f25384cdc3''\<rparr>
       ''0x0000000000000000000000000000000000000001''
     = Some \<lparr>total_collateral_usd = Fin 0,
             total_debt_usd = Fin 0,
             available_borrows_usd = Fin 0,
             liquidation_threshold = Fin (8 / 10),
             ltv = Fin (75 / 100),
             health_factor = PInf,
             positions = []\<rparr>
   \<and> calculate_health_factor (Fin 0) (Fin 0) (Fin 0) = Inr PInf"
proof -
  have aave: "get_user_account_data
     (example_world True (0, 0, 0, 0, 0, - 1) (Inl OtherException))
     \<lparr>cls = AaveV3Interface, self_chain_id = 1, self_w3 = ''https://eth.llamarpc.com'',
      self_contract = ''0x87870Bca3F3fD6335C3F4ce8392D69350B4fA4E2''\<rparr>
     ''0x0000000000000000000000000000000000000001''
   = Some \<lparr>total_collateral_usd = Fin (real (unat (0 :: uint256)) / 10 ^ 8),
                 total_debt_usd = Fin (real (unat (0 :: uint256)) / 10 ^ 8),
                 available_borrows_usd = Fin (real (unat (0 :: uint256)) / 10 ^ 8),
                 liquidation_threshold = Fin (real (unat (0 :: uint256)) / 10 ^ 4),
                 ltv = Fin (real (unat (0 :: uint256)) / 10 ^ 4),
                 health_factor = Fin (real (unat (- 1 :: uint256)) / 10 ^ 18),
                 positions = []\<rparr>"
    by (subst aave_family_dispatch, simp, rule aave_get_user_account_data_eq)
       (simp_all add: example_world_def)
  have compound: "get_user_account_data
       ((example_world True (0, 0, 0, 0, 0, - 1) (Inl OtherException))
          \<lparr>borrowBalanceOf := (\<lambda>rpc_url contract wallet. Inr 0),
           collateralBalanceOf := (\<lambda>rpc_url contract wallet. Inr 0),
           getPrice := (\<lambda>rpc_url contract. Inr 0)\<rparr>)
       \<lparr>cls = CompoundV3Interface, self_chain_id = 1, self_w3 = ''https://eth.llamarpc.com'',
        self_contract = ''0xc3d688B66703497DAA19211EEdff47f25384cdc3''\<rparr>
       ''0x0000000000000000000000000000000000000001''
     = Some \<lparr>total_collateral_usd = Fin (real (unat (0 :: uint256) * unat (0 :: uint256)) / 10 ^ 14),
             total_debt_usd = Fin 0,
             available_borrows_usd = Fin 0,
             liquidation_threshold = Fin (8 / 10),
             ltv = Fin (75 / 100),
             health_factor = PInf,
             positions = []\<rparr>"
    by (subst compound_dispatch, simp, rule compound_no_debt_health_factor)
       (simp_all add: example_world_def)
  have formula: "calculate_health_factor (Fin 0) (Fin 0) (Fin 0) = Inr PInf"
    by (simp add: calculate_health_factor_def py_eq_def)
  from aave compound formula show ?thesis
    by (simp add: unat_max_uint256)
qed

section \<open>Construction of an interface\<close>

text \<open>
  The Spark and the Radiant interface look the chain up in their address table before
  anything else: without an address, the constructor raises \<open>ValueError\<close> and has made
  no network call. Spark on Polygon (chain 137) is such a case.
\<close>

theorem spark_radiant_unsupported_before_network:
  "(SPARK_POOL_ADDRESSES chain_id = None \<longrightarrow>
      get_protocol_interface w SPARK chain_id rpc_url = ([], Inl ValueError))
   \<and> (RADIANT_POOL_ADDRESSES chain_id = None \<longrightarrow>
      get_protocol_interface w RADIANT chain_id rpc_url = ([], Inl ValueError))
   \<and> get_protocol_interface w SPARK 137 rpc_url = ([], Inl ValueError)"
  by (simp add: get_protocol_interface_def SparkInterface_init_def RadiantInterface_init_def
      SPARK_POOL_ADDRESSES_def)

text \<open>
  C8 fails for the Aave V3 and the Compound V3 interface. Their constructors run the base
  initialiser first, so the connectivity check is made before the address table is read:
  on a chain without an address the constructor raises \<open>ValueError\<close> only after a
  successful check, and \<open>ConnectionError\<close> when the provider does not answer.
  Aave V3 on BSC (chain 56) and Compound V3 on Optimism (chain 10) are such cases.
\<close>

theorem aave_compound_unsupported_after_connectivity_check:
  "(AAVE_V3_POOL_ADDRESSES chain_id = None \<longrightarrow>
      get_protocol_interface w AAVE_V3 chain_id rpc_url =
        ([IsConnected rpc_url],
         Inl (if is_connected w rpc_url then ValueError else ConnectionError)))
   \<and> (COMPOUND_V3_COMET_ADDRESSES chain_id = None \<longrightarrow>
      get_protocol_interface w COMPOUND_V3 chain_id rpc_url =
        ([IsConnected rpc_url],
         Inl (if is_connected w rpc_url then ValueError else ConnectionError)))
   \<and> get_protocol_interface w AAVE_V3 56 rpc_url =
        ([IsConnected rpc_url],
         Inl (if is_connected w rpc_url then ValueError else ConnectionError))
   \<and> get_protocol_interface w COMPOUND_V3 10 rpc_url =
        ([IsConnected rpc_url],
         Inl (if is_connected w rpc_url then ValueError else ConnectionError))"
  by (simp add: get_protocol_interface_def AaveV3Interface_init_def CompoundV3Interface_init_def
      ProtocolInterface_init_def AAVE_V3_POOL_ADDRESSES_def COMPOUND_V3_COMET_ADDRESSES_def)

theorem aave_compound_unsupported_after_connectivity_check_witness:
  "AAVE_V3_POOL_ADDRESSES 56 = None
   \<and> get_protocol_interface (example_world False (0, 0, 0, 0, 0, 0) (Inl OtherException))
        AAVE_V3 56 ''https://binance.llamarpc.com''
      = ([IsConnected ''https://binance.llamarpc.com''], Inl ConnectionError)
   \<and> get_protocol_interface (example_world True (0, 0, 0, 0, 0, 0) (Inl OtherException))
        AAVE_V3 56 ''https://binance.llamarpc.com''
      = ([IsConnected ''https://binance.llamarpc.com''], Inl ValueError)"
  using aave_compound_unsupported_after_connectivity_check
    [of 56 "example_world False (0, 0, 0, 0, 0, 0) (Inl OtherException)"
      "''https://binance.llamarpc.com''"]
    aave_compound_unsupported_after_connectivity_check
    [of 56 "example_world True (0, 0, 0, 0, 0, 0) (Inl OtherException)"
      "''https://binance.llamarpc.com''"]
  by (simp add: example_world_def AAVE_V3_POOL_ADDRESSES_def)

section \<open>Liquidation price of a monitored position\<close>

text \<open>
  C7. Once the account data of a wallet has been fetched, the result of
  \<open>monitor_position\<close> holds a liquidation price only if both the total debt and the
  total collateral are above zero. In every other case the monitor still returns a result
  (it does not fail), and the liquidation price of that result is \<open>None\<close>. A price that
  is present is the debt divided by the product of collateral and threshold.
\<close>

theorem monitor_position_liq_price:
  assumes "rpc_urls self chain_id = Some rpc_url"
    and "snd (get_protocol_interface w protocol chain_id rpc_url) = Inr iface"
    and "get_user_account_data w iface wallet = Some ad"
  shows "(\<not> (py_gt (total_debt_usd ad) (Fin 0) \<and> py_gt (total_collateral_usd ad) (Fin 0)) \<longrightarrow>
            (\<exists>r. monitor_position w self wallet protocol chain_id = Some r
                 \<and> liq_price r = None
                 \<and> position_data.health_factor r = health_factor ad
                 \<and> position_data.total_collateral_usd r = total_collateral_usd ad
                 \<and> position_data.total_debt_usd r = total_debt_usd ad))
       \<and> (\<forall>r. monitor_position w self wallet protocol chain_id = Some r \<longrightarrow>
             (liq_price r \<noteq> None) =
               (py_gt (total_debt_usd ad) (Fin 0) \<and> py_gt (total_collateral_usd ad) (Fin 0)))
       \<and> (\<forall>r p. monitor_position w self wallet protocol chain_id = Some r \<and> liq_price r = Some p
             \<longrightarrow> py_truediv (total_debt_usd ad)
                   (py_mul (total_collateral_usd ad) (liquidation_threshold ad)) = Inr p)"
  using assms
  by (auto simp: monitor_position_def then_do_def split: sum.splits if_splits)

theorem monitor_position_liq_price_witness:
  "\<exists>r. monitor_position
          (example_world True (0, 0, 0, 0, 0, - 1) (Inl OtherException))
          (LendingMonitor_init (example_world True (0, 0, 0, 0, 0, - 1) (Inl OtherException)))
          ''0x0000000000000000000000000000000000000001'' AAVE_V3 1 = Some r
       \<and> liq_price r = None
       \<and> position_data.total_collateral_usd r = Fin 0
       \<and> position_data.total_debt_usd r = Fin 0"
proof -
  let ?w = "example_world True (0, 0, 0, 0, 0, - 1) (Inl OtherException)"
  let ?url = "''https://eth.llamarpc.com''"
  let ?addr = "''0x87870Bca3F3fD6335C3F4ce8392D69350B4fA4E2''"
  let ?wallet = "''0x0000000000000000000000000000000000000001''"
  let ?iface = "\<lparr>cls = AaveV3Interface, self_chain_id = 1, self_w3 = ?url,
                  self_contract = ?addr\<rparr>"
  let ?ad = "\<lparr>total_collateral_usd = Fin (real (unat (0 :: uint256)) / 10 ^ 8),
               total_debt_usd = Fin (real (unat (0 :: uint256)) / 10 ^ 8),
               available_borrows_usd = Fin (real (unat (0 :: uint256)) / 10 ^ 8),
               liquidation_threshold = Fin (real (unat (0 :: uint256)) / 10 ^ 4),
               ltv = Fin (real (unat (0 :: uint256)) / 10 ^ 4),
               health_factor = Fin (real (unat (- 1 :: uint256)) / 10 ^ 18),
               positions = []\<rparr>"
  have h1: "rpc_urls (LendingMonitor_init ?w) 1 = Some ?url"
    by (simp add: LendingMonitor_init_def DEFAULT_RPC_URLS_def example_world_def)
  have h2: "snd (get_protocol_interface ?w AAVE_V3 1 ?url) = Inr ?iface"
    by (simp add: get_protocol_interface_def AaveV3Interface_init_def
        ProtocolInterface_init_def AAVE_V3_POOL_ADDRESSES_def example_world_def)
  have h3: "get_user_account_data ?w ?iface ?wallet = Some ?ad"
    by (subst aave_family_dispatch, simp, rule aave_get_user_account_data_eq)
       (simp_all add: example_world_def)
  from monitor_position_liq_price [OF h1 h2 h3] show ?thesis
    by (auto simp: py_gt_def py_lt_def)
qed

section \<open>Batched price resolution\<close>

lemma COINGECKO_IDS_nonempty: "COINGECKO_IDS k = Some g \<Longrightarrow> g \<noteq> []"
  by (auto simp: COINGECKO_IDS_def split: if_splits)

lemma map_symbols_Cons_mapped:
  "COINGECKO_IDS (upper s) = Some g \<Longrightarrow>
   map_symbols (s # ss) ids m = map_symbols ss (ids @ [g]) (m(g \<mapsto> upper s))"
  by (simp add: COINGECKO_IDS_nonempty)

lemma map_symbols_Cons_unmapped:
  "COINGECKO_IDS (upper s) = None \<Longrightarrow> map_symbols (s # ss) ids m = map_symbols ss ids m"
  by simp

lemma map_symbols_cases:
  "map_symbols (s # ss) ids m =
     (case COINGECKO_IDS (upper s) of
        None \<Rightarrow> map_symbols ss ids m
      | Some g \<Rightarrow> map_symbols ss (ids @ [g]) (m(g \<mapsto> upper s)))"
  by (simp add: COINGECKO_IDS_nonempty split: option.splits)

lemma map_symbols_ids:
  "fst (map_symbols ss ids m) = ids @ List.map_filter (\<lambda>s. COINGECKO_IDS (upper s)) ss"
  by (induction ss arbitrary: ids m)
     (simp_all add: map_symbols_cases map_filter_simps split: option.splits del: map_symbols.simps(2))

lemma map_filter_Nil_iff: "(List.map_filter f xs = []) = (\<forall>x\<in>set xs. f x = None)"
  by (induction xs) (simp_all add: map_filter_simps split: option.splits)

lemma map_symbols_append:
  "map_symbols (xs @ ys) ids m =
     (case map_symbols xs ids m of (ids', m') \<Rightarrow> map_symbols ys ids' m')"
  by (induction xs arbitrary: ids m)
     (simp_all add: map_symbols_cases split: option.splits del: map_symbols.simps(2))

lemma map_symbols_table_origin:
  "snd (map_symbols ss ids m) g = Some k \<Longrightarrow>
   m g = Some k \<or> (\<exists>s\<in>set ss. k = upper s \<and> COINGECKO_IDS k = Some g)"
proof (induction ss arbitrary: ids m)
  case Nil
  then show ?case by simp
next
  case (Cons s ss)
  show ?case
  proof (cases "COINGECKO_IDS (upper s)")
    case None
    with Cons.prems have "snd (map_symbols ss ids m) g = Some k"
      by (simp add: map_symbols_Cons_unmapped del: map_symbols.simps(2))
    from Cons.IH [OF this] show ?thesis by auto
  next
    case (Some g')
    with Cons.prems have "snd (map_symbols ss (ids @ [g']) (m(g' \<mapsto> upper s))) g = Some k"
      by (simp add: map_symbols_Cons_mapped del: map_symbols.simps(2))
    from Cons.IH [OF this] Some show ?thesis
      by (auto split: if_splits)
  qed
qed

lemma map_symbols_table_untouched:
  "\<forall>y\<in>set ys. COINGECKO_IDS (upper y) \<noteq> Some g \<Longrightarrow> snd (map_symbols ys ids m) g = m g"
  by (induction ys arbitrary: ids m)
     (auto simp: map_symbols_cases split: option.splits simp del: map_symbols.simps(2))

lemma map_symbols_last_wins:
  assumes "COINGECKO_IDS (upper b) = Some g"
    and "\<forall>y\<in>set ys. COINGECKO_IDS (upper y) \<noteq> Some g"
  shows "snd (map_symbols (xs @ b # ys) ids m) g = Some (upper b)"
proof -
  obtain ids' m' where xs: "map_symbols xs ids m = (ids', m')"
    by (cases "map_symbols xs ids m")
  have "snd (map_symbols (xs @ b # ys) ids m) g
        = snd (map_symbols ys (ids' @ [g]) (m'(g \<mapsto> upper b))) g"
    using assms(1) by (simp add: map_symbols_append xs map_symbols_Cons_mapped del: map_symbols.simps(2))
  also have "\<dots> = (m'(g \<mapsto> upper b)) g"
    using assms(2) by (rule map_symbols_table_untouched)
  finally show ?thesis by simp
qed

lemma last_mapped_split:
  "\<exists>s\<in>set ss. COINGECKO_IDS (upper s) = Some g \<Longrightarrow>
   \<exists>xs b ys. ss = xs @ b # ys \<and> COINGECKO_IDS (upper b) = Some g
          \<and> (\<forall>y\<in>set ys. COINGECKO_IDS (upper y) \<noteq> Some g)"
proof (induction ss)
  case Nil
  then show ?case by simp
next
  case (Cons x ss)
  show ?case
  proof (cases "\<exists>y\<in>set ss. COINGECKO_IDS (upper y) = Some g")
    case True
    from Cons.IH [OF this] obtain xs b ys where
      "ss = xs @ b # ys" "COINGECKO_IDS (upper b) = Some g"
      "\<forall>y\<in>set ys. COINGECKO_IDS (upper y) \<noteq> Some g" by blast
    then have "x # ss = (x # xs) @ b # ys \<and> COINGECKO_IDS (upper b) = Some g
        \<and> (\<forall>y\<in>set ys. COINGECKO_IDS (upper y) \<noteq> Some g)" by simp
    then show ?thesis by blast
  next
    case False
    with Cons.prems have "COINGECKO_IDS (upper x) = Some g" by auto
    with False have "x # ss = [] @ x # ss \<and> COINGECKO_IDS (upper x) = Some g
        \<and> (\<forall>y\<in>set ss. COINGECKO_IDS (upper y) \<noteq> Some g)" by simp
    then show ?thesis by blast
  qed
qed

lemma map_symbols_table_defined:
  assumes "s \<in> set ss" and "COINGECKO_IDS (upper s) = Some g"
  shows "\<exists>b\<in>set ss. COINGECKO_IDS (upper b) = Some g
           \<and> snd (map_symbols ss ids m) g = Some (upper b)"
proof -
  from assms have "\<exists>s\<in>set ss. COINGECKO_IDS (upper s) = Some g" by blast
  from last_mapped_split [OF this] obtain xs b ys where
    *: "ss = xs @ b # ys" "COINGECKO_IDS (upper b) = Some g"
    "\<forall>y\<in>set ys. COINGECKO_IDS (upper y) \<noteq> Some g" by blast
  have "snd (map_symbols ss ids m) g = Some (upper b)"
    unfolding *(1) using *(2,3) by (rule map_symbols_last_wins)
  moreover have "b \<in> set ss" using *(1) by simp
  ultimately show ?thesis using *(2) by blast
qed

lemma parse_response_Cons_no_usd:
  "pd ''usd'' = None \<Longrightarrow>
   parse_response m ((g, pd) # rest) prices = parse_response m rest prices"
  by simp

lemma parse_response_Cons_unknown:
  "pd ''usd'' = Some usd \<Longrightarrow> m g = None \<Longrightarrow>
   parse_response m ((g, pd) # rest) prices = (prices, Some KeyError)"
  by simp

lemma parse_response_Cons_known:
  "pd ''usd'' = Some usd \<Longrightarrow> m g = Some symbol \<Longrightarrow>
   parse_response m ((g, pd) # rest) prices = parse_response m rest (prices(symbol \<mapsto> usd))"
  by simp

lemma parse_response_origin:
  "fst (parse_response m data prices) k = Some v \<Longrightarrow>
   prices k = Some v \<or> (\<exists>g pd. (g, pd) \<in> set data \<and> pd ''usd'' = Some v \<and> m g = Some k)"
proof (induction data arbitrary: prices)
  case Nil
  then show ?case by simp
next
  case (Cons x rest)
  obtain g pd where x: "x = (g, pd)" by (cases x)
  show ?case
  proof (cases "pd ''usd''")
    case None
    with Cons.prems have "fst (parse_response m rest prices) k = Some v"
      by (simp add: x)
    from Cons.IH [OF this] show ?thesis by (auto simp: x)
  next
    case (Some usd)
    note usd = this
    show ?thesis
    proof (cases "m g")
      case None
      with Cons.prems usd show ?thesis by (simp add: x)
    next
      case (Some symbol)
      with usd Cons.prems
      have "fst (parse_response m rest (prices(symbol \<mapsto> usd))) k = Some v"
        by (simp add: x)
      from Cons.IH [OF this]
      have "(prices(symbol \<mapsto> usd)) k = Some v
          \<or> (\<exists>g pd. (g, pd) \<in> set rest \<and> pd ''usd'' = Some v \<and> m g = Some k)" .
      then show ?thesis
      proof
        assume a: "(prices(symbol \<mapsto> usd)) k = Some v"
        show ?thesis
        proof (cases "k = symbol")
          case True
          with a have "usd = v" by simp
          with usd Some True have "(g, pd) \<in> set (x # rest) \<and> pd ''usd'' = Some v \<and> m g = Some k"
            by (simp add: x)
          then show ?thesis by blast
        next
          case False
          with a show ?thesis by simp
        qed
      next
        assume "\<exists>g pd. (g, pd) \<in> set rest \<and> pd ''usd'' = Some v \<and> m g = Some k"
        then show ?thesis by auto
      qed
    qed
  qed
qed


lemma parse_response_keys:
  "\<forall>x\<in>set data. snd x ''usd'' \<noteq> None \<longrightarrow> m (fst x) \<noteq> None \<Longrightarrow>
   (fst (parse_response m data prices) k \<noteq> None) =
     (prices k \<noteq> None
      \<or> (\<exists>g pd. (g, pd) \<in> set data \<and> pd ''usd'' \<noteq> None \<and> m g = Some k))"
proof (induction data arbitrary: prices)
  case Nil
  then show ?case by simp
next
  case (Cons x rest)
  obtain g pd where x: "x = (g, pd)" by (cases x)
  from Cons.prems have rest: "\<forall>x\<in>set rest. snd x ''usd'' \<noteq> None \<longrightarrow> m (fst x) \<noteq> None"
    by simp
  note IH = Cons.IH [OF rest]
  show ?case
  proof (cases "pd ''usd''")
    case None
    have "(fst (parse_response m (x # rest) prices) k \<noteq> None)
          = (fst (parse_response m rest prices) k \<noteq> None)"
      using None by (simp add: x)
    also have "\<dots> = (prices k \<noteq> None
      \<or> (\<exists>g pd. (g, pd) \<in> set rest \<and> pd ''usd'' \<noteq> None \<and> m g = Some k))"
      by (rule IH)
    also have "\<dots> = (prices k \<noteq> None
      \<or> (\<exists>g pd. (g, pd) \<in> set (x # rest) \<and> pd ''usd'' \<noteq> None \<and> m g = Some k))"
      using None by (auto simp: x)
    finally show ?thesis .
  next
    case (Some usd)
    note usd = this
    from Cons.prems usd obtain symbol where sym: "m g = Some symbol"
      by (auto simp: x)
    have "(fst (parse_response m (x # rest) prices) k \<noteq> None)
          = (fst (parse_response m rest (prices(symbol \<mapsto> usd))) k \<noteq> None)"
      using usd sym by (simp add: x)
    also have "\<dots> = ((prices(symbol \<mapsto> usd)) k \<noteq> None
      \<or> (\<exists>g pd. (g, pd) \<in> set rest \<and> pd ''usd'' \<noteq> None \<and> m g = Some k))"
      by (rule IH)
    also have "\<dots> = (prices k \<noteq> None \<or> k = symbol
      \<or> (\<exists>g pd. (g, pd) \<in> set rest \<and> pd ''usd'' \<noteq> None \<and> m g = Some k))"
      by auto
    also have "\<dots> = (prices k \<noteq> None
      \<or> (\<exists>g pd. (g, pd) \<in> set (x # rest) \<and> pd ''usd'' \<noteq> None \<and> m g = Some k))"
      using usd sym by (auto simp: x)
    finally show ?thesis .
  qed
qed

lemma get_token_prices_unfold:
  "get_token_prices w symbols =
     (let ids = List.map_filter (\<lambda>s. COINGECKO_IDS (upper s)) symbols;
          m = snd (map_symbols symbols [] Map.empty)
      in if ids = [] then ([], Map.empty)
         else ([price_url ids],
               case http_get w (price_url ids) of
                 Inl e \<Rightarrow> Map.empty
               | Inr data \<Rightarrow> fst (parse_response m data Map.empty)))"
proof -
  have "fst (map_symbols symbols [] Map.empty)
          = List.map_filter (\<lambda>s. COINGECKO_IDS (upper s)) symbols"
    by (simp add: map_symbols_ids)
  then show ?thesis
    by (cases "map_symbols symbols [] Map.empty") (simp add: get_token_prices_def Let_def)
qed

lemma get_token_prices_none_mapped:
  "\<forall>s\<in>set symbols. COINGECKO_IDS (upper s) = None \<Longrightarrow>
   get_token_prices w symbols = ([], Map.empty)"
  by (simp add: get_token_prices_unfold Let_def map_filter_Nil_iff)

lemma get_token_prices_requests:
  "fst (get_token_prices w symbols) =
     (if \<forall>s\<in>set symbols. COINGECKO_IDS (upper s) = None then []
      else [price_url (List.map_filter (\<lambda>s. COINGECKO_IDS (upper s)) symbols)])"
  by (simp add: get_token_prices_unfold Let_def map_filter_Nil_iff)

lemma get_token_prices_failed_request:
  "http_get w (price_url (List.map_filter (\<lambda>s. COINGECKO_IDS (upper s)) symbols)) = Inl e \<Longrightarrow>
   snd (get_token_prices w symbols) = Map.empty"
  by (simp add: get_token_prices_unfold Let_def)

lemma get_token_prices_origin:
  assumes "snd (get_token_prices w symbols) k = Some v"
  shows "\<exists>s\<in>set symbols. k = upper s \<and>
           (\<exists>g data pd. COINGECKO_IDS k = Some g
              \<and> http_get w (price_url (List.map_filter (\<lambda>s. COINGECKO_IDS (upper s)) symbols))
                  = Inr data
              \<and> (g, pd) \<in> set data \<and> pd ''usd'' = Some v)"
proof -
  let ?ids = "List.map_filter (\<lambda>s. COINGECKO_IDS (upper s)) symbols"
  let ?m = "snd (map_symbols symbols [] Map.empty)"
  from assms have ne: "?ids \<noteq> []"
    by (auto simp: get_token_prices_unfold Let_def)
  from assms ne obtain data where data: "http_get w (price_url ?ids) = Inr data"
    by (cases "http_get w (price_url ?ids)") (auto simp: get_token_prices_unfold Let_def)
  from assms ne data have "fst (parse_response ?m data Map.empty) k = Some v"
    by (simp add: get_token_prices_unfold Let_def)
  from parse_response_origin [OF this] obtain g pd where
    gpd: "(g, pd) \<in> set data" "pd ''usd'' = Some v" "?m g = Some k" by auto
  from map_symbols_table_origin [OF gpd(3)] obtain s where
    s: "s \<in> set symbols" "k = upper s" "COINGECKO_IDS k = Some g" by auto
  from s gpd data show ?thesis by blast
qed

lemma get_token_prices_exact:
  assumes uniq: "\<forall>a\<in>set symbols. \<forall>b\<in>set symbols.
             COINGECKO_IDS (upper a) = COINGECKO_IDS (upper b)
               \<and> COINGECKO_IDS (upper a) \<noteq> None \<longrightarrow> upper a = upper b"
    and data: "http_get w (price_url (List.map_filter (\<lambda>s. COINGECKO_IDS (upper s)) symbols))
                 = Inr data"
    and asked: "\<forall>x\<in>set data. \<exists>s\<in>set symbols. COINGECKO_IDS (upper s) = Some (fst x)"
  shows "(snd (get_token_prices w symbols) k \<noteq> None) =
           (\<exists>s\<in>set symbols. k = upper s \<and>
              (\<exists>g pd. COINGECKO_IDS (upper s) = Some g \<and> (g, pd) \<in> set data
                  \<and> pd ''usd'' \<noteq> None))"
proof -
  let ?ids = "List.map_filter (\<lambda>s. COINGECKO_IDS (upper s)) symbols"
  let ?m = "snd (map_symbols symbols [] Map.empty)"
  have known: "\<forall>x\<in>set data. snd x ''usd'' \<noteq> None \<longrightarrow> ?m (fst x) \<noteq> None"
  proof
    fix x assume "x \<in> set data"
    with asked obtain s where "s \<in> set symbols" "COINGECKO_IDS (upper s) = Some (fst x)"
      by blast
    from map_symbols_table_defined [OF this]
    show "snd x ''usd'' \<noteq> None \<longrightarrow> ?m (fst x) \<noteq> None" by auto
  qed
  show ?thesis
  proof (cases "?ids = []")
    case True
    then have none: "\<forall>s\<in>set symbols. COINGECKO_IDS (upper s) = None"
      by (simp add: map_filter_Nil_iff)
    then have "snd (get_token_prices w symbols) k = None"
      by (simp add: get_token_prices_none_mapped)
    with none show ?thesis by auto
  next
    case False
    with data have res: "snd (get_token_prices w symbols) = fst (parse_response ?m data Map.empty)"
      by (simp add: get_token_prices_unfold Let_def)
    have "(snd (get_token_prices w symbols) k \<noteq> None)
          = (\<exists>g pd. (g, pd) \<in> set data \<and> pd ''usd'' \<noteq> None \<and> ?m g = Some k)"
      unfolding res using parse_response_keys [OF known, of Map.empty k] by simp
    also have "\<dots> = (\<exists>s\<in>set symbols. k = upper s \<and>
              (\<exists>g pd. COINGECKO_IDS (upper s) = Some g \<and> (g, pd) \<in> set data
                  \<and> pd ''usd'' \<noteq> None))"
    proof
      assume "\<exists>g pd. (g, pd) \<in> set data \<and> pd ''usd'' \<noteq> None \<and> ?m g = Some k"
      then obtain g pd where gpd: "(g, pd) \<in> set data" "pd ''usd'' \<noteq> None" "?m g = Some k"
        by blast
      from map_symbols_table_origin [OF gpd(3)] obtain s where
        "s \<in> set symbols" "k = upper s" "COINGECKO_IDS k = Some g" by auto
      with gpd show "\<exists>s\<in>set symbols. k = upper s \<and>
              (\<exists>g pd. COINGECKO_IDS (upper s) = Some g \<and> (g, pd) \<in> set data
                  \<and> pd ''usd'' \<noteq> None)" by blast
    next
      assume "\<exists>s\<in>set symbols. k = upper s \<and>
              (\<exists>g pd. COINGECKO_IDS (upper s) = Some g \<and> (g, pd) \<in> set data
                  \<and> pd ''usd'' \<noteq> None)"
      then obtain s g pd where s: "s \<in> set symbols" "k = upper s"
        "COINGECKO_IDS (upper s) = Some g" "(g, pd) \<in> set data" "pd ''usd'' \<noteq> None"
        by blast
      from map_symbols_table_defined [OF s(1) s(3)] obtain b where
        b: "b \<in> set symbols" "COINGECKO_IDS (upper b) = Some g" "?m g = Some (upper b)"
        by blast
      from uniq s(1) b(1) s(3) b(2) have "upper s = upper b" by auto
      with b(3) s(2) have "?m g = Some k" by simp
      with s(4,5) show "\<exists>g pd. (g, pd) \<in> set data \<and> pd ''usd'' \<noteq> None \<and> ?m g = Some k"
        by blast
    qed
    finally show ?thesis .
  qed
qed

lemma get_token_prices_key_table:
  assumes "snd (get_token_prices w symbols) k = Some v"
  shows "\<exists>g. snd (map_symbols symbols [] Map.empty) g = Some k"
proof -
  let ?ids = "List.map_filter (\<lambda>s. COINGECKO_IDS (upper s)) symbols"
  let ?m = "snd (map_symbols symbols [] Map.empty)"
  from assms have ne: "?ids \<noteq> []"
    by (auto simp: get_token_prices_unfold Let_def)
  from assms ne obtain data where data: "http_get w (price_url ?ids) = Inr data"
    by (cases "http_get w (price_url ?ids)") (auto simp: get_token_prices_unfold Let_def)
  from assms ne data have "fst (parse_response ?m data Map.empty) k = Some v"
    by (simp add: get_token_prices_unfold Let_def)
  from parse_response_origin [OF this] show ?thesis by auto
qed

lemma get_token_prices_keys_table:
  assumes data: "http_get w (price_url (List.map_filter (\<lambda>s. COINGECKO_IDS (upper s)) symbols))
                 = Inr data"
    and asked: "\<forall>x\<in>set data. \<exists>s\<in>set symbols. COINGECKO_IDS (upper s) = Some (fst x)"
  shows "(snd (get_token_prices w symbols) k \<noteq> None) =
           (\<exists>g pd. (g, pd) \<in> set data \<and> pd ''usd'' \<noteq> None
               \<and> snd (map_symbols symbols [] Map.empty) g = Some k)"
proof -
  let ?ids = "List.map_filter (\<lambda>s. COINGECKO_IDS (upper s)) symbols"
  let ?m = "snd (map_symbols symbols [] Map.empty)"
  have known: "\<forall>x\<in>set data. snd x ''usd'' \<noteq> None \<longrightarrow> ?m (fst x) \<noteq> None"
  proof
    fix x assume "x \<in> set data"
    with asked obtain s where "s \<in> set symbols" "COINGECKO_IDS (upper s) = Some (fst x)"
      by blast
    from map_symbols_table_defined [OF this]
    show "snd x ''usd'' \<noteq> None \<longrightarrow> ?m (fst x) \<noteq> None" by auto
  qed
  show ?thesis
  proof (cases "?ids = []")
    case True
    then have none: "\<forall>s\<in>set symbols. COINGECKO_IDS (upper s) = None"
      by (simp add: map_filter_Nil_iff)
    then have l: "snd (get_token_prices w symbols) k = None"
      by (simp add: get_token_prices_none_mapped)
    have "\<not> (\<exists>g pd. (g, pd) \<in> set data \<and> pd ''usd'' \<noteq> None \<and> ?m g = Some k)"
    proof
      assume "\<exists>g pd. (g, pd) \<in> set data \<and> pd ''usd'' \<noteq> None \<and> ?m g = Some k"
      then obtain g where "?m g = Some k" by blast
      from map_symbols_table_origin [OF this] none show False by auto
    qed
    with l show ?thesis by simp
  next
    case False
    with data have res: "snd (get_token_prices w symbols) = fst (parse_response ?m data Map.empty)"
      by (simp add: get_token_prices_unfold Let_def)
    show ?thesis
      unfolding res using parse_response_keys [OF known, of Map.empty k] by simp
  qed
qed

lemma upper_ETH: "upper ''ETH'' = ''ETH''"
  by code_simp

lemma upper_WETH: "upper ''WETH'' = ''WETH''"
  by code_simp

lemma upper_eth: "upper ''eth'' = ''ETH''"
  by code_simp

lemma upper_UNKNOWNXYZ: "upper ''UNKNOWNXYZ'' = ''UNKNOWNXYZ''"
  by code_simp

lemma COINGECKO_IDS_ETH: "COINGECKO_IDS ''ETH'' = Some ''ethereum''"
  by (simp add: COINGECKO_IDS_def)

lemma COINGECKO_IDS_WETH: "COINGECKO_IDS ''WETH'' = Some ''ethereum''"
  by (simp add: COINGECKO_IDS_def)

lemma COINGECKO_IDS_UNKNOWNXYZ: "COINGECKO_IDS ''UNKNOWNXYZ'' = None"
  by (simp add: COINGECKO_IDS_def)

text \<open>
  C9 fails on the code. Asked for \<open>ETH\<close> and \<open>WETH\<close>, the function asks the
  aggregator for their common id twice, and with a response that carries a price for that
  id it returns a price for \<open>WETH\<close> only: \<open>ETH\<close>, which was resolved as well, is
  missing from the result. Asked for \<open>ETH\<close> alone, with the same response, it returns
  the price of \<open>ETH\<close>.
\<close>

theorem get_token_prices_alias_drops_resolved_symbol:
  "get_token_prices
     (example_world True (0, 0, 0, 0, 0, 0) (Inr [(''ethereum'', [''usd'' \<mapsto> Fin 3000])]))
     [''ETH'', ''WETH'']
   = ([price_url [''ethereum'', ''ethereum'']], [''WETH'' \<mapsto> Fin 3000])
   \<and> snd (get_token_prices
          (example_world True (0, 0, 0, 0, 0, 0) (Inr [(''ethereum'', [''usd'' \<mapsto> Fin 3000])]))
          [''ETH'', ''WETH'']) ''WETH'' = Some (Fin 3000)
   \<and> snd (get_token_prices
          (example_world True (0, 0, 0, 0, 0, 0) (Inr [(''ethereum'', [''usd'' \<mapsto> Fin 3000])]))
          [''ETH'', ''WETH'']) ''ETH'' = None
   \<and> COINGECKO_IDS (upper ''ETH'') = Some ''ethereum''
   \<and> get_token_prices
       (example_world True (0, 0, 0, 0, 0, 0) (Inr [(''ethereum'', [''usd'' \<mapsto> Fin 3000])]))
       [''ETH'']
     = ([price_url [''ethereum'']], [''ETH'' \<mapsto> Fin 3000])"
  by (simp add: get_token_prices_def example_world_def upper_ETH upper_WETH
      COINGECKO_IDS_ETH COINGECKO_IDS_WETH)

text \<open>
  C10. Let \<open>a\<close> and \<open>b\<close> be symbols of the input that differ after upper-casing and
  map to the same id \<open>g\<close>, with \<open>b\<close> the last symbol of the input that maps to
  \<open>g\<close> and \<open>a\<close> before it. Then the result never has a price for \<open>a\<close>, whatever
  the aggregator answers; and when the aggregator answers with ids that were asked for,
  the result has a price for \<open>b\<close> exactly when the response carries a usd entry for
  \<open>g\<close>.
\<close>

theorem get_token_prices_alias_keeps_later_only:
  assumes "symbols = xs @ b # ys"
    and "a \<in> set xs"
    and "upper a \<noteq> upper b"
    and "COINGECKO_IDS (upper a) = Some g"
    and "COINGECKO_IDS (upper b) = Some g"
    and "\<forall>y\<in>set ys. COINGECKO_IDS (upper y) \<noteq> Some g"
  shows "snd (get_token_prices w symbols) (upper a) = None
       \<and> (\<forall>data.
            http_get w (price_url (List.map_filter (\<lambda>s. COINGECKO_IDS (upper s)) symbols))
              = Inr data
            \<and> (\<forall>x\<in>set data. \<exists>s\<in>set symbols. COINGECKO_IDS (upper s) = Some (fst x))
            \<longrightarrow> (snd (get_token_prices w symbols) (upper b) \<noteq> None)
                  = (\<exists>pd. (g, pd) \<in> set data \<and> pd ''usd'' \<noteq> None))"
proof -
  let ?m = "snd (map_symbols symbols [] Map.empty)"
  have last: "?m g = Some (upper b)"
    unfolding assms(1) using assms(5,6) by (rule map_symbols_last_wins)
  have only: "\<And>g' k. ?m g' = Some k \<Longrightarrow> COINGECKO_IDS k = Some g'"
  proof -
    fix g' k assume "?m g' = Some k"
    from map_symbols_table_origin [OF this] show "COINGECKO_IDS k = Some g'" by auto
  qed
  have dropped: "snd (get_token_prices w symbols) (upper a) = None"
  proof (rule ccontr)
    assume "snd (get_token_prices w symbols) (upper a) \<noteq> None"
    then obtain v where "snd (get_token_prices w symbols) (upper a) = Some v" by auto
    from get_token_prices_key_table [OF this] obtain g' where g': "?m g' = Some (upper a)"
      by blast
    from only [OF g'] assms(4) have "g' = g" by simp
    with g' last assms(3) show False by simp
  qed
  have kept: "\<forall>data.
            http_get w (price_url (List.map_filter (\<lambda>s. COINGECKO_IDS (upper s)) symbols))
              = Inr data
            \<and> (\<forall>x\<in>set data. \<exists>s\<in>set symbols. COINGECKO_IDS (upper s) = Some (fst x))
            \<longrightarrow> (snd (get_token_prices w symbols) (upper b) \<noteq> None)
                  = (\<exists>pd. (g, pd) \<in> set data \<and> pd ''usd'' \<noteq> None)"
  proof (intro allI impI)
    fix data
    assume h: "http_get w (price_url (List.map_filter (\<lambda>s. COINGECKO_IDS (upper s)) symbols))
              = Inr data
            \<and> (\<forall>x\<in>set data. \<exists>s\<in>set symbols. COINGECKO_IDS (upper s) = Some (fst x))"
    then have d1: "http_get w (price_url (List.map_filter (\<lambda>s. COINGECKO_IDS (upper s)) symbols))
              = Inr data"
      and d2: "\<forall>x\<in>set data. \<exists>s\<in>set symbols. COINGECKO_IDS (upper s) = Some (fst x)"
      by blast+
    have "(snd (get_token_prices w symbols) (upper b) \<noteq> None)
          = (\<exists>g' pd. (g', pd) \<in> set data \<and> pd ''usd'' \<noteq> None \<and> ?m g' = Some (upper b))"
      by (rule get_token_prices_keys_table [OF d1 d2])
    also have "\<dots> = (\<exists>pd. (g, pd) \<in> set data \<and> pd ''usd'' \<noteq> None)"
    proof
      assume "\<exists>g' pd. (g', pd) \<in> set data \<and> pd ''usd'' \<noteq> None \<and> ?m g' = Some (upper b)"
      then obtain g' pd where *: "(g', pd) \<in> set data" "pd ''usd'' \<noteq> None"
        "?m g' = Some (upper b)" by blast
      from only [OF *(3)] assms(5) have "g' = g" by simp
      with * show "\<exists>pd. (g, pd) \<in> set data \<and> pd ''usd'' \<noteq> None" by blast
    next
      assume "\<exists>pd. (g, pd) \<in> set data \<and> pd ''usd'' \<noteq> None"
      with last show "\<exists>g' pd. (g', pd) \<in> set data \<and> pd ''usd'' \<noteq> None
          \<and> ?m g' = Some (upper b)" by blast
    qed
    finally show "(snd (get_token_prices w symbols) (upper b) \<noteq> None)
                  = (\<exists>pd. (g, pd) \<in> set data \<and> pd ''usd'' \<noteq> None)" .
  qed
  from dropped kept show ?thesis by blast
qed

theorem get_token_prices_alias_keeps_later_only_witness:
  "snd (get_token_prices (example_world True (0, 0, 0, 0, 0, 0) (Inr [(''ethereum'', [''usd'' \<mapsto> Fin 3000])])) [''ETH'', ''WETH'']) ''ETH'' = None
   \<and> snd (get_token_prices (example_world True (0, 0, 0, 0, 0, 0) (Inr [(''ethereum'', [''usd'' \<mapsto> Fin 3000])])) [''ETH'', ''WETH'']) ''WETH'' \<noteq> None"
proof -
  let ?w = "(example_world True (0, 0, 0, 0, 0, 0) (Inr [(''ethereum'', [''usd'' \<mapsto> Fin 3000])]))"
  let ?symbols = "[''ETH'', ''WETH'']"
  let ?data = "[(''ethereum'', [''usd'' \<mapsto> Fin 3000])]"
  note up = upper_ETH upper_WETH COINGECKO_IDS_ETH COINGECKO_IDS_WETH
  have h1: "?symbols = [''ETH''] @ ''WETH'' # []" by simp
  have h2: "''ETH'' \<in> set [''ETH'']" by simp
  have h3: "upper ''ETH'' \<noteq> upper ''WETH''" by (simp add: up)
  have h4: "COINGECKO_IDS (upper ''ETH'') = Some ''ethereum''" by (simp add: up)
  have h5: "COINGECKO_IDS (upper ''WETH'') = Some ''ethereum''" by (simp add: up)
  have h6: "\<forall>y\<in>set []. COINGECKO_IDS (upper y) \<noteq> Some ''ethereum''" by simp
  note t = get_token_prices_alias_keeps_later_only [OF h1 h2 h3 h4 h5 h6, of ?w]
  from t have dropped: "snd (get_token_prices ?w ?symbols) ''ETH'' = None"
    by (simp add: up)
  have hyp: "http_get ?w (price_url (List.map_filter (\<lambda>s. COINGECKO_IDS (upper s)) ?symbols))
              = Inr ?data
            \<and> (\<forall>x\<in>set ?data. \<exists>s\<in>set ?symbols. COINGECKO_IDS (upper s) = Some (fst x))"
    by (simp add: up example_world_def)
  from t hyp have "(snd (get_token_prices ?w ?symbols) (upper ''WETH'') \<noteq> None)
                  = (\<exists>pd. (''ethereum'', pd) \<in> set ?data \<and> pd ''usd'' \<noteq> None)"
    by blast
  then have kept: "snd (get_token_prices ?w ?symbols) ''WETH'' \<noteq> None"
    by (simp add: up)
  from dropped kept show ?thesis by simp
qed

text \<open>
  What holds of \<open>get_token_prices\<close> on every input: it always returns a dictionary. If
  no symbol has an entry in the table, it makes no request and returns the empty
  dictionary; otherwise it makes one request, which names the ids of the mapped symbols
  only. A failed request gives the empty dictionary. Every key returned is the upper-cased
  form of a mapped input symbol, and its price is the usd entry of a response item for its
  id. On an input in which no two symbols that differ after upper-casing share an id, and
  with a response that holds only ids that were asked for, the keys returned are exactly
  the upper-cased symbols whose id has a usd entry in the response.
\<close>

theorem get_token_prices_partial_results:
  "((\<forall>s\<in>set symbols. COINGECKO_IDS (upper s) = None) \<longrightarrow>
      get_token_prices w symbols = ([], Map.empty))
   \<and> fst (get_token_prices w symbols) =
       (if \<forall>s\<in>set symbols. COINGECKO_IDS (upper s) = None then []
        else [price_url (List.map_filter (\<lambda>s. COINGECKO_IDS (upper s)) symbols)])
   \<and> (\<forall>e. http_get w (price_url (List.map_filter (\<lambda>s. COINGECKO_IDS (upper s)) symbols)) = Inl e
        \<longrightarrow> snd (get_token_prices w symbols) = Map.empty)
   \<and> (\<forall>k v. snd (get_token_prices w symbols) k = Some v \<longrightarrow>
        (\<exists>s\<in>set symbols. k = upper s \<and>
           (\<exists>g data pd. COINGECKO_IDS k = Some g
              \<and> http_get w (price_url (List.map_filter (\<lambda>s. COINGECKO_IDS (upper s)) symbols))
                  = Inr data
              \<and> (g, pd) \<in> set data \<and> pd ''usd'' = Some v)))
   \<and> (\<forall>data.
        (\<forall>a\<in>set symbols. \<forall>b\<in>set symbols.
             COINGECKO_IDS (upper a) = COINGECKO_IDS (upper b)
               \<and> COINGECKO_IDS (upper a) \<noteq> None \<longrightarrow> upper a = upper b)
        \<and> http_get w (price_url (List.map_filter (\<lambda>s. COINGECKO_IDS (upper s)) symbols))
             = Inr data
        \<and> (\<forall>x\<in>set data. \<exists>s\<in>set symbols. COINGECKO_IDS (upper s) = Some (fst x))
        \<longrightarrow> (\<forall>k. (snd (get_token_prices w symbols) k \<noteq> None) =
                  (\<exists>s\<in>set symbols. k = upper s \<and>
                     (\<exists>g pd. COINGECKO_IDS (upper s) = Some g \<and> (g, pd) \<in> set data
                        \<and> pd ''usd'' \<noteq> None))))"
proof (intro conjI)
  show "(\<forall>s\<in>set symbols. COINGECKO_IDS (upper s) = None) \<longrightarrow>
      get_token_prices w symbols = ([], Map.empty)"
    by (simp add: get_token_prices_none_mapped)
  show "fst (get_token_prices w symbols) =
       (if \<forall>s\<in>set symbols. COINGECKO_IDS (upper s) = None then []
        else [price_url (List.map_filter (\<lambda>s. COINGECKO_IDS (upper s)) symbols)])"
    by (rule get_token_prices_requests)
  show "\<forall>e. http_get w (price_url (List.map_filter (\<lambda>s. COINGECKO_IDS (upper s)) symbols)) = Inl e
        \<longrightarrow> snd (get_token_prices w symbols) = Map.empty"
    using get_token_prices_failed_request by blast
  show "\<forall>k v. snd (get_token_prices w symbols) k = Some v \<longrightarrow>
        (\<exists>s\<in>set symbols. k = upper s \<and>
           (\<exists>g data pd. COINGECKO_IDS k = Some g
              \<and> http_get w (price_url (List.map_filter (\<lambda>s. COINGECKO_IDS (upper s)) symbols))
                  = Inr data
              \<and> (g, pd) \<in> set data \<and> pd ''usd'' = Some v))"
    using get_token_prices_origin by blast
  show "\<forall>data.
        (\<forall>a\<in>set symbols. \<forall>b\<in>set symbols.
             COINGECKO_IDS (upper a) = COINGECKO_IDS (upper b)
               \<and> COINGECKO_IDS (upper a) \<noteq> None \<longrightarrow> upper a = upper b)
        \<and> http_get w (price_url (List.map_filter (\<lambda>s. COINGECKO_IDS (upper s)) symbols))
             = Inr data
        \<and> (\<forall>x\<in>set data. \<exists>s\<in>set symbols. COINGECKO_IDS (upper s) = Some (fst x))
        \<longrightarrow> (\<forall>k. (snd (get_token_prices w symbols) k \<noteq> None) =
                  (\<exists>s\<in>set symbols. k = upper s \<and>
                     (\<exists>g pd. COINGECKO_IDS (upper s) = Some g \<and> (g, pd) \<in> set data
                        \<and> pd ''usd'' \<noteq> None)))"
  proof (intro allI impI)
    fix data k
    assume h: "(\<forall>a\<in>set symbols. \<forall>b\<in>set symbols.
             COINGECKO_IDS (upper a) = COINGECKO_IDS (upper b)
               \<and> COINGECKO_IDS (upper a) \<noteq> None \<longrightarrow> upper a = upper b)
        \<and> http_get w (price_url (List.map_filter (\<lambda>s. COINGECKO_IDS (upper s)) symbols))
             = Inr data
        \<and> (\<forall>x\<in>set data. \<exists>s\<in>set symbols. COINGECKO_IDS (upper s) = Some (fst x))"
    show "(snd (get_token_prices w symbols) k \<noteq> None) =
                  (\<exists>s\<in>set symbols. k = upper s \<and>
                     (\<exists>g pd. COINGECKO_IDS (upper s) = Some g \<and> (g, pd) \<in> set data
                        \<and> pd ''usd'' \<noteq> None))"
      by (rule get_token_prices_exact [OF conjunct1 [OF h] conjunct1 [OF conjunct2 [OF h]]
            conjunct2 [OF conjunct2 [OF h]]])
  qed
qed

theorem get_token_prices_partial_results_witness:
  "fst (get_token_prices (example_world True (0, 0, 0, 0, 0, 0) (Inr [(''ethereum'', [''usd'' \<mapsto> Fin 3000])])) [''ETH'', ''UNKNOWNXYZ'']) = [price_url [''ethereum'']]
   \<and> snd (get_token_prices (example_world True (0, 0, 0, 0, 0, 0) (Inr [(''ethereum'', [''usd'' \<mapsto> Fin 3000])])) [''ETH'', ''UNKNOWNXYZ'']) ''ETH'' \<noteq> None
   \<and> snd (get_token_prices (example_world True (0, 0, 0, 0, 0, 0) (Inr [(''ethereum'', [''usd'' \<mapsto> Fin 3000])])) [''ETH'', ''UNKNOWNXYZ'']) ''UNKNOWNXYZ'' = None
   \<and> get_token_prices (example_world True (0, 0, 0, 0, 0, 0) (Inr [(''ethereum'', [''usd'' \<mapsto> Fin 3000])])) [''UNKNOWNXYZ''] = ([], Map.empty)"
proof -
  let ?w = "(example_world True (0, 0, 0, 0, 0, 0) (Inr [(''ethereum'', [''usd'' \<mapsto> Fin 3000])]))"
  let ?symbols = "[''ETH'', ''UNKNOWNXYZ'']"
  let ?data = "[(''ethereum'', [''usd'' \<mapsto> Fin 3000])]"
  note up = upper_ETH upper_UNKNOWNXYZ COINGECKO_IDS_ETH COINGECKO_IDS_UNKNOWNXYZ
  have ids: "List.map_filter (\<lambda>s. COINGECKO_IDS (upper s)) ?symbols = [''ethereum'']"
    by (simp add: map_filter_simps up)
  note t = get_token_prices_partial_results [of ?symbols ?w]
  note t1 = get_token_prices_partial_results [of "[''UNKNOWNXYZ'']" ?w]
  from t have req: "fst (get_token_prices ?w ?symbols) = [price_url [''ethereum'']]"
    by (simp add: ids up)
  have hyp: "(\<forall>a\<in>set ?symbols. \<forall>b\<in>set ?symbols.
             COINGECKO_IDS (upper a) = COINGECKO_IDS (upper b)
               \<and> COINGECKO_IDS (upper a) \<noteq> None \<longrightarrow> upper a = upper b)
        \<and> http_get ?w (price_url (List.map_filter (\<lambda>s. COINGECKO_IDS (upper s)) ?symbols))
             = Inr ?data
        \<and> (\<forall>x\<in>set ?data. \<exists>s\<in>set ?symbols. COINGECKO_IDS (upper s) = Some (fst x))"
    by (simp add: up example_world_def)
  from t have "\<forall>data.
        (\<forall>a\<in>set ?symbols. \<forall>b\<in>set ?symbols.
             COINGECKO_IDS (upper a) = COINGECKO_IDS (upper b)
               \<and> COINGECKO_IDS (upper a) \<noteq> None \<longrightarrow> upper a = upper b)
        \<and> http_get ?w (price_url (List.map_filter (\<lambda>s. COINGECKO_IDS (upper s)) ?symbols))
             = Inr data
        \<and> (\<forall>x\<in>set data. \<exists>s\<in>set ?symbols. COINGECKO_IDS (upper s) = Some (fst x))
        \<longrightarrow> (\<forall>k. (snd (get_token_prices ?w ?symbols) k \<noteq> None) =
                  (\<exists>s\<in>set ?symbols. k = upper s \<and>
                     (\<exists>g pd. COINGECKO_IDS (upper s) = Some g \<and> (g, pd) \<in> set data
                        \<and> pd ''usd'' \<noteq> None)))"
    by (elim conjE)
  then have exact: "\<And>k. (snd (get_token_prices ?w ?symbols) k \<noteq> None) =
                  (\<exists>s\<in>set ?symbols. k = upper s \<and>
                     (\<exists>g pd. COINGECKO_IDS (upper s) = Some g \<and> (g, pd) \<in> set ?data
                        \<and> pd ''usd'' \<noteq> None))"
    using hyp by blast
  have eth: "snd (get_token_prices ?w ?symbols) ''ETH'' \<noteq> None"
    unfolding exact by (simp add: up)
  have unk: "snd (get_token_prices ?w ?symbols) ''UNKNOWNXYZ'' = None"
    using exact [of "''UNKNOWNXYZ''"] by (simp add: up)
  from t1 have none: "get_token_prices ?w [''UNKNOWNXYZ''] = ([], Map.empty)"
    by (simp add: up)
  from req eth unk none show ?thesis by simp
qed

end
